theory Spec2Isabelle
  imports Main
begin

section \<open>JavaScript values\<close>

text \<open>
  A JavaScript number is an IEEE 754 double.  A finite double is kept as a pair of
  integers \<open>Fin m e\<close> that stands for \<open>m * 2 ^ e\<close>.
\<close>

datatype number = NaN | PosInfinity | NegInfinity | Fin int int

text \<open>
  Values as they exist at run time, where the TypeScript types are erased: whatever
  \<open>response.json()\<close> produces, and the object literals the client builds.  An object is
  the list of its own properties, in the order the literal writes them.
\<close>

datatype jsval =
    JUndefined
  | JNull
  | JBool bool
  | JNum number
  | JStr string
  | JArr "jsval list"
  | JObj "(string \<times> jsval) list"

text \<open>
  A thrown value: an instance of \<open>Error\<close> with its message, or any other value, kept
  as what \<open>String(error)\<close> makes of it.
\<close>

datatype thrown = ErrorInstance string | NonError string

text \<open>\<open>error instanceof Error ? error.message : String(error)\<close>\<close>

fun thrown_message :: "thrown \<Rightarrow> string" where
  "thrown_message (ErrorInstance m) = m"
| "thrown_message (NonError s) = s"

text \<open>Truthiness, as \<open>!x\<close>, \<open>x || y\<close> and \<open>x && y\<close> test it.\<close>

fun truthy :: "jsval \<Rightarrow> bool" where
  "truthy JUndefined = False"
| "truthy JNull = False"
| "truthy (JBool b) = b"
| "truthy (JNum NaN) = False"
| "truthy (JNum (Fin m e)) = (m \<noteq> 0)"
| "truthy (JNum n) = True"
| "truthy (JStr s) = (s \<noteq> [])"
| "truthy (JArr xs) = True"
| "truthy (JObj kvs) = True"

text \<open>\<open>a || b\<close>\<close>

definition js_or :: "jsval \<Rightarrow> jsval \<Rightarrow> jsval" where
  "js_or a b = (if truthy a then a else b)"

text \<open>
  Reading a property \<open>v.k\<close> where \<open>k\<close> is not a property of a built-in prototype
  (the client reads \<open>error\<close>, \<open>message\<close>, \<open>transactionHash\<close> and the like): on
  \<open>undefined\<close> and \<open>null\<close> it throws a \<open>TypeError\<close>, on an object it gives the own
  property or \<open>undefined\<close>, on any other value \<open>undefined\<close>.
\<close>

fun own_prop :: "(string \<times> jsval) list \<Rightarrow> string \<Rightarrow> jsval" where
  "own_prop kvs k = (case map_of kvs k of None \<Rightarrow> JUndefined | Some v \<Rightarrow> v)"

fun get_prop :: "jsval \<Rightarrow> string \<Rightarrow> thrown + jsval" where
  "get_prop JUndefined k =
     Inl (ErrorInstance (''Cannot read properties of undefined (reading '' @ k @ '')''))"
| "get_prop JNull k =
     Inl (ErrorInstance (''Cannot read properties of null (reading '' @ k @ '')''))"
| "get_prop (JObj kvs) k = Inr (own_prop kvs k)"
| "get_prop v k = Inr JUndefined"

text \<open>
  The decimal digits of a non-negative integer, as a template literal and \<open>toString\<close>
  print it.
\<close>

definition digit_char :: "int \<Rightarrow> char" where
  "digit_char d = ''0123456789'' ! nat d"

function decimal :: "int \<Rightarrow> string" where
  "decimal n = (if n < 10 then [digit_char n] else decimal (n div 10) @ [digit_char (n mod 10)])"
  by pat_completeness auto
termination
  by (relation "measure nat") auto

definition string_of_nat :: "nat \<Rightarrow> string" where
  "string_of_nat n = decimal (int n)"

definition string_of_int :: "int \<Rightarrow> string" where
  "string_of_int i = (if i < 0 then ''-'' @ decimal (- i) else decimal i)"

section \<open>JavaScript numbers\<close>

text \<open>
  Arithmetic on numbers is IEEE 754 double arithmetic: the exact result, rounded to the
  nearest double, ties to the even mantissa.  Negative zero is not kept apart from zero
  (\<open>toString\<close> prints both as \<open>0\<close>).  \<open>to_double neg p q\<close> is the double nearest to the
  rational \<open>p / q\<close> (\<open>q > 0\<close>), negated when \<open>neg\<close>: a mantissa below \<open>2 ^ 53\<close> at a binary
  exponent of at least \<open>-1074\<close>, infinite from \<open>2 ^ 1024\<close> on (a mantissa of at
  least \<open>2 ^ 52\<close> at an exponent of 972 or more).
\<close>

text \<open>The number of binary digits of a positive integer.\<close>

function bits :: "int \<Rightarrow> nat" where
  "bits n = (if n \<le> 0 then 0 else Suc (bits (n div 2)))"
  by pat_completeness auto
termination
  by (relation "measure nat") auto

text \<open>\<open>2 ^ d \<le> p / q\<close>, for an integer \<open>d\<close> of either sign\<close>

definition pow2_le_ratio :: "int \<Rightarrow> int \<Rightarrow> int \<Rightarrow> bool" where
  "pow2_le_ratio d p q = (if 0 \<le> d then q * 2 ^ nat d \<le> p else q \<le> p * 2 ^ nat (- d))"

text \<open>The \<open>e\<close> with \<open>2 ^ e \<le> p / q < 2 ^ (e + 1)\<close>, for positive \<open>p\<close> and \<open>q\<close>.\<close>

definition floor_log2 :: "int \<Rightarrow> int \<Rightarrow> int" where
  "floor_log2 p q =
     (let d = int (bits p) - int (bits q) in if pow2_le_ratio d p q then d else d - 1)"

text \<open>The integer nearest to \<open>n / d\<close>, the even one of two equally near.\<close>

definition round_half_even :: "int \<Rightarrow> int \<Rightarrow> int" where
  "round_half_even n d =
     (let k = n div d; r = n mod d
      in if 2 * r < d then k else if d < 2 * r then k + 1 else if even k then k else k + 1)"

definition to_double :: "bool \<Rightarrow> int \<Rightarrow> int \<Rightarrow> number" where
  "to_double neg p q =
     (if p = 0 then Fin 0 0
      else
        let e = max (floor_log2 p q) (- 1022);
            sh = e - 52;
            m = (if 0 \<le> sh then round_half_even p (q * 2 ^ nat sh)
                 else round_half_even (p * 2 ^ nat (- sh)) q);
            (m', sh') = (if m = 2 ^ 53 then (2 ^ 52, sh + 1) else (m, sh))
        in if m' = 0 then Fin 0 0
           else if 972 \<le> sh' then (if neg then NegInfinity else PosInfinity)
           else Fin (if neg then - m' else m') sh')"

definition number_of_int :: "int \<Rightarrow> number" where
  "number_of_int i = to_double (i < 0) \<bar>i\<bar> 1"

text \<open>\<open>a * b\<close>\<close>

fun number_mul :: "number \<Rightarrow> number \<Rightarrow> number" where
  "number_mul (Fin m1 e1) (Fin m2 e2) =
     (let neg = ((m1 < 0) \<noteq> (m2 < 0)); p = \<bar>m1\<bar> * \<bar>m2\<bar>; e = e1 + e2
      in if 0 \<le> e then to_double neg (p * 2 ^ nat e) 1 else to_double neg p (2 ^ nat (- e)))"
| "number_mul NaN b = NaN"
| "number_mul a NaN = NaN"
| "number_mul (Fin m e) PosInfinity =
     (if m = 0 then NaN else if m < 0 then NegInfinity else PosInfinity)"
| "number_mul (Fin m e) NegInfinity =
     (if m = 0 then NaN else if m < 0 then PosInfinity else NegInfinity)"
| "number_mul PosInfinity (Fin m e) =
     (if m = 0 then NaN else if m < 0 then NegInfinity else PosInfinity)"
| "number_mul NegInfinity (Fin m e) =
     (if m = 0 then NaN else if m < 0 then PosInfinity else NegInfinity)"
| "number_mul PosInfinity PosInfinity = PosInfinity"
| "number_mul NegInfinity NegInfinity = PosInfinity"
| "number_mul PosInfinity NegInfinity = NegInfinity"
| "number_mul NegInfinity PosInfinity = NegInfinity"

text \<open>\<open>a / b\<close>\<close>

fun number_div :: "number \<Rightarrow> number \<Rightarrow> number" where
  "number_div (Fin m1 e1) (Fin m2 e2) =
     (let neg = ((m1 < 0) \<noteq> (m2 < 0))
      in if m2 = 0 then (if m1 = 0 then NaN else if m1 < 0 then NegInfinity else PosInfinity)
         else if e2 \<le> e1 then to_double neg (\<bar>m1\<bar> * 2 ^ nat (e1 - e2)) \<bar>m2\<bar>
         else to_double neg \<bar>m1\<bar> (\<bar>m2\<bar> * 2 ^ nat (e2 - e1)))"
| "number_div NaN b = NaN"
| "number_div a NaN = NaN"
| "number_div (Fin m e) b = Fin 0 0"
| "number_div PosInfinity (Fin m e) = (if m < 0 then NegInfinity else PosInfinity)"
| "number_div NegInfinity (Fin m e) = (if m < 0 then PosInfinity else NegInfinity)"
| "number_div a b = NaN"

text \<open>\<open>Math.floor(x)\<close>\<close>

fun Math_floor :: "number \<Rightarrow> number" where
  "Math_floor (Fin m e) = (if 0 \<le> e then Fin m e else number_of_int (m div 2 ^ nat (- e)))"
| "Math_floor x = x"

text \<open>\<open>i < x\<close> for an integer \<open>i\<close>, which as a number is exact, and a number \<open>x\<close>\<close>

fun int_less_number :: "int \<Rightarrow> number \<Rightarrow> bool" where
  "int_less_number i NaN = False"
| "int_less_number i PosInfinity = True"
| "int_less_number i NegInfinity = False"
| "int_less_number i (Fin m e) =
     (if 0 \<le> e then i < m * 2 ^ nat e else i * 2 ^ nat (- e) < m)"

subsection \<open>Numbers from strings\<close>

definition is_space :: "char \<Rightarrow> bool" where
  "is_space c = (c \<in> set [CHR '' '', CHR 0x09, CHR 0x0A, CHR 0x0B, CHR 0x0C, CHR 0x0D])"

definition digit_val :: "char \<Rightarrow> int option" where
  "digit_val = map_of (zip ''0123456789'' [0, 1, 2, 3, 4, 5, 6, 7, 8, 9])"

definition hex_val :: "char \<Rightarrow> int option" where
  "hex_val =
     map_of (zip ''0123456789abcdefABCDEF''
               [0, 1, 2, 3, 4, 5, 6, 7, 8, 9, 10, 11, 12, 13, 14, 15, 10, 11, 12, 13, 14, 15])"

definition is_digit :: "char \<Rightarrow> bool" where
  "is_digit c = (digit_val c \<noteq> None)"

text \<open>The value of a string of digits in a radix.\<close>

definition digits_value :: "(char \<Rightarrow> int option) \<Rightarrow> int \<Rightarrow> string \<Rightarrow> int" where
  "digits_value val radix ds = foldl (\<lambda>a c. radix * a + (case val c of None \<Rightarrow> 0 | Some v \<Rightarrow> v)) 0 ds"

text \<open>A leading sign: whether it is a minus, and what follows it.\<close>

fun split_sign :: "string \<Rightarrow> bool \<times> string" where
  "split_sign (c # cs) =
     (if c = CHR ''-'' then (True, cs) else if c = CHR ''+'' then (False, cs)
      else (False, c # cs))"
| "split_sign [] = (False, [])"

text \<open>
  \<open>parseInt(string)\<close> without a radix: leading white space is skipped, then a sign, then
  \<open>0x\<close> or \<open>0X\<close> selects radix 16; the longest run of digits is the value, \<open>NaN\<close> if
  there is none.
\<close>

definition parseInt :: "string \<Rightarrow> number" where
  "parseInt string =
     (let (neg, s) = split_sign (dropWhile is_space string);
          hex = (take 2 s = ''0x'' \<or> take 2 s = ''0X'');
          val = (if hex then hex_val else digit_val);
          z = takeWhile (\<lambda>c. val c \<noteq> None) (if hex then drop 2 s else s);
          n = digits_value val (if hex then 16 else 10) z
      in if z = [] then NaN else to_double neg n 1)"

text \<open>The exponent part \<open>e\<close>, \<open>e+\<close> or \<open>e-\<close> and digits, if the string starts with one.\<close>

fun exponent_part :: "string \<Rightarrow> int" where
  "exponent_part (c # cs) =
     (if c = CHR ''e'' \<or> c = CHR ''E'' then
        (let (neg, r) = split_sign cs; ds = takeWhile is_digit r;
             x = digits_value digit_val 10 ds
         in if ds = [] then 0 else if neg then - x else x)
      else 0)"
| "exponent_part [] = 0"

text \<open>
  \<open>parseFloat(string)\<close>: leading white space is skipped; the longest prefix that is a
  decimal literal (sign, \<open>Infinity\<close>, or digits with an optional fraction and exponent)
  is the value, \<open>NaN\<close> if there is none.
\<close>

definition parseFloat :: "string \<Rightarrow> number" where
  "parseFloat string =
     (let (neg, s) = split_sign (dropWhile is_space string);
          ip = takeWhile is_digit s;
          r1 = dropWhile is_digit s;
          has_point = (take 1 r1 = ''.'');
          fp = (if has_point then takeWhile is_digit (drop 1 r1) else []);
          r2 = (if has_point then dropWhile is_digit (drop 1 r1) else r1);
          ex = exponent_part r2 - int (length fp);
          d = digits_value digit_val 10 (ip @ fp)
      in if take 8 s = ''Infinity'' then (if neg then NegInfinity else PosInfinity)
         else if ip = [] \<and> fp = [] then NaN
         else if 0 \<le> ex then to_double neg (d * 10 ^ nat ex) 1
         else to_double neg d (10 ^ nat (- ex)))"

subsection \<open>Numbers to strings\<close>

text \<open>
  \<open>Number.prototype.toString()\<close>: the digits are the shortest decimal \<open>s\<close> (of \<open>k\<close>
  digits, read as \<open>s * 10 ^ (n - k)\<close>) whose nearest double is the number, the nearest
  to the number if there are several.  For a positive \<open>p / q\<close>, \<open>decimal_exponent\<close> is
  the \<open>n\<close> with \<open>10 ^ (n - 1) \<le> p / q < 10 ^ n\<close>.
\<close>

function leading_zeros :: "int \<Rightarrow> int \<Rightarrow> nat" where
  "leading_zeros p q = (if p \<le> 0 \<or> q \<le> p then 0 else Suc (leading_zeros (10 * p) q))"
  by pat_completeness auto
termination
  by (relation "measure (\<lambda>(p, q). nat (q - p))") auto

definition decimal_exponent :: "int \<Rightarrow> int \<Rightarrow> int" where
  "decimal_exponent p q =
     (if q \<le> p then int (length (decimal (p div q))) else 1 - int (leading_zeros p q))"

text \<open>The double nearest to \<open>s * 10 ^ x\<close>.\<close>

definition decimal_to_double :: "int \<Rightarrow> int \<Rightarrow> number" where
  "decimal_to_double s x =
     (if 0 \<le> x then to_double False (s * 10 ^ nat x) 1 else to_double False s (10 ^ nat (- x)))"

text \<open>
  The candidates with \<open>k\<close> digits for the positive double \<open>Fin m e = p / q\<close>: of the two
  \<open>k\<close>-digit decimals around it, those whose nearest double it is, the nearer one
  first (the even one of two equally near).
\<close>

definition candidates :: "int \<Rightarrow> int \<Rightarrow> int \<Rightarrow> int \<Rightarrow> int \<Rightarrow> nat \<Rightarrow> int list" where
  "candidates m e p q n k =
     (let x = n - int k;
          pn = (if 0 \<le> x then p else p * 10 ^ nat (- x));
          qn = (if 0 \<le> x then q * 10 ^ nat x else q);
          lo = pn div qn;
          r = pn mod qn;
          near = (if 2 * r < qn then [lo, lo + 1] else if qn < 2 * r then [lo + 1, lo]
                  else if even lo then [lo, lo + 1] else [lo + 1, lo])
      in filter (\<lambda>s. decimal_to_double s x = Fin m e) near)"

fun strip_zeros :: "string \<Rightarrow> string" where
  "strip_zeros ds = rev (dropWhile (\<lambda>c. c = CHR ''0'') (rev ds))"

text \<open>The digits and the exponent \<open>n\<close> of a positive double; 17 digits always suffice.\<close>

definition shortest_digits :: "int \<Rightarrow> int \<Rightarrow> string \<times> int" where
  "shortest_digits m e =
     (let p = (if 0 \<le> e then m * 2 ^ nat e else m);
          q = (if 0 \<le> e then 1 else 2 ^ nat (- e));
          n = decimal_exponent p q
      in case List.find (\<lambda>k. candidates m e p q n k \<noteq> []) [1 ..< 18] of
           None \<Rightarrow> ([], n)
         | Some k \<Rightarrow>
             (let ds = decimal (hd (candidates m e p q n k))
              in (strip_zeros ds, n + int (length ds) - int k)))"

definition format_digits :: "string \<Rightarrow> int \<Rightarrow> string" where
  "format_digits ds n =
     (let k = int (length ds)
      in if k \<le> n \<and> n \<le> 21 then ds @ replicate (nat (n - k)) CHR ''0''
         else if 0 < n \<and> n \<le> 21 then take (nat n) ds @ ''.'' @ drop (nat n) ds
         else if - 6 < n \<and> n \<le> 0 then ''0.'' @ replicate (nat (- n)) CHR ''0'' @ ds
         else if k = 1 then ds @ ''e'' @ (if 0 \<le> n - 1 then ''+'' else ''-'')
                @ decimal \<bar>n - 1\<bar>
         else take 1 ds @ ''.'' @ drop 1 ds @ ''e'' @ (if 0 \<le> n - 1 then ''+'' else ''-'')
                @ decimal \<bar>n - 1\<bar>)"

fun toString :: "number \<Rightarrow> string" where
  "toString NaN = ''NaN''"
| "toString PosInfinity = ''Infinity''"
| "toString NegInfinity = ''-Infinity''"
| "toString (Fin m e) =
     (if m = 0 then ''0''
      else (if m < 0 then ''-'' else [])
           @ (let (ds, n) = shortest_digits \<bar>m\<bar> e in format_digits ds n))"

section \<open>The Stellar SDK and Horizon, as the utilities use them\<close>

text \<open>
  The Stellar SDK is not part of the repository.  Its objects are kept as the data the
  utilities and Horizon read from them: a transaction as its source account, its
  sequence number, fee, network passphrase, operations, memo, time-out and signatures
  (a signature as the public key of the signer); an account as Horizon returns it, with
  its sequence number as an integer.
\<close>

record Keypair =
  publicKey :: string
  secret :: string

datatype Asset = Native

text \<open>A payment operation, as \<open>Operation.payment\<close> has built it.\<close>

record PaymentOperation =
  destination :: string
  asset :: Asset
  amount :: string

record BalanceLine =
  bal_asset_type :: string
  bal_balance :: string

record AccountResponse =
  accountId :: string
  sequence :: int
  balances :: "BalanceLine list"
  data_attr :: "(string \<times> string) list"

record Transaction =
  tx_source :: string
  tx_sequence :: int
  tx_fee :: string
  tx_networkPassphrase :: string
  tx_operations :: "PaymentOperation list"
  tx_memo :: "string option"
  tx_timeout :: nat
  tx_signatures :: "string list"

text \<open>
  What the utilities take from the SDK besides Horizon: \<open>Keypair.fromSecret\<close>, which
  throws on a string that is no secret key, and \<open>Operation.payment\<close> of the native
  asset with a destination and an amount, which throws on a destination or an amount
  it does not accept and otherwise gives the operation with the amount as the SDK
  encodes it.
\<close>

record stellar_sdk =
  fromSecret :: "string \<Rightarrow> thrown + Keypair"
  payment :: "string \<Rightarrow> string \<Rightarrow> thrown + PaymentOperation"

text \<open>\<open>new Horizon.Server(horizonUrl, { allowHttp })\<close>\<close>

record HorizonServer =
  serverURL :: string
  allowHttp :: bool

text \<open>What Horizon answers about a transaction and about its operations.\<close>

record TransactionRecord =
  successful :: bool
  source_account :: string

record OperationRecord =
  op_type :: string
  op_asset_type :: "string option"
  op_to :: "string option"
  op_amount :: "string option"

text \<open>
  What a Horizon call rejects with: an error with a message and, when Horizon answered,
  \<open>error.response\<close> with its \<open>status\<close> and \<open>data\<close>.
\<close>

datatype horizon_error = HorizonError string "(nat \<times> jsval) option"

text \<open>\<open>error.response?.status\<close>\<close>

fun response_status :: "horizon_error \<Rightarrow> nat option" where
  "response_status (HorizonError m None) = None"
| "response_status (HorizonError m (Some (st, d))) = Some st"

text \<open>\<open>error.response?.data\<close>\<close>

fun response_data :: "horizon_error \<Rightarrow> jsval" where
  "response_data (HorizonError m None) = JUndefined"
| "response_data (HorizonError m (Some (st, d))) = d"

datatype horizon_call =
    LoadAccount string
  | SubmitTransaction Transaction
  | TransactionCall string
  | OperationsForTransaction string

text \<open>
  Horizon as the utilities see it: asked at a time (in milliseconds) on a server, each
  call takes some time and then rejects or resolves.
\<close>

record horizon =
  loadAccount_reply :: "nat \<Rightarrow> HorizonServer \<Rightarrow> string \<Rightarrow> nat \<times> (horizon_error + AccountResponse)"
  submitTransaction_reply :: "nat \<Rightarrow> HorizonServer \<Rightarrow> Transaction \<Rightarrow> nat \<times> (horizon_error + string)"
  transaction_reply :: "nat \<Rightarrow> HorizonServer \<Rightarrow> string \<Rightarrow> nat \<times> (horizon_error + TransactionRecord)"
  operations_reply :: "nat \<Rightarrow> HorizonServer \<Rightarrow> string
      \<Rightarrow> nat \<times> (horizon_error + OperationRecord list)"

section \<open>The network\<close>

record http_request =
  req_url :: string
  req_method :: string
  req_headers :: "(string \<times> string) list"
  req_body :: jsval  \<comment> \<open>the value handed to \<open>JSON.stringify\<close>\<close>

record http_response =
  ok :: bool
  status :: nat
  json :: "thrown + jsval"  \<comment> \<open>\<open>await response.json()\<close>: the parsed body, or the rejection\<close>

text \<open>
  The facilitator as the client sees it: asked at a time (in milliseconds) with a
  request, \<open>fetch\<close> takes some time and then rejects or resolves with a response.
\<close>

type_synonym facilitator = "nat \<Rightarrow> http_request \<Rightarrow> nat \<times> (thrown + http_response)"

datatype net_call = Fetch http_request | Horizon HorizonServer horizon_call

text \<open>
  The state a call runs in: the clock (\<open>Date.now()\<close>, in milliseconds) and the
  network calls made so far, each with the time it was made.
\<close>

record client_state =
  clock :: nat
  sent :: "(nat \<times> net_call) list"

definition fetch :: "facilitator \<Rightarrow> http_request \<Rightarrow> client_state
    \<Rightarrow> (thrown + http_response) \<times> client_state" where
  "fetch fac req s =
     (let (d, r) = fac (clock s) req
      in (r, \<lparr>clock = clock s + d, sent = sent s @ [(clock s, Fetch req)]\<rparr>))"

text \<open>A parameter with a default value: an omitted argument is \<open>None\<close>.\<close>

fun or_default :: "'a option \<Rightarrow> 'a \<Rightarrow> 'a" where
  "or_default None d = d"
| "or_default (Some x) d = x"

text \<open>The Horizon calls of the utilities, in a state.\<close>

definition loadAccount :: "horizon \<Rightarrow> HorizonServer \<Rightarrow> string \<Rightarrow> client_state
    \<Rightarrow> (horizon_error + AccountResponse) \<times> client_state" where
  "loadAccount hz server address s =
     (let (d, r) = loadAccount_reply hz (clock s) server address
      in (r, \<lparr>clock = clock s + d,
              sent = sent s @ [(clock s, Horizon server (LoadAccount address))]\<rparr>))"

text \<open>
  \<open>server.submitTransaction(transaction)\<close>, as the SDK does it when the check for a
  required memo is not switched off: for a transaction without a memo it first loads
  the account of every destination, once each and in the order of the operations, but
  not of a multiplexed one (\<open>M...\<close>); it rejects when such an account has the data entry
  \<open>config.memo_required\<close> set to \<open>MQ==\<close> or cannot be loaded for another reason than
  not being found; then it posts the transaction.
\<close>

fun checkMemoRequired :: "horizon \<Rightarrow> HorizonServer \<Rightarrow> string list \<Rightarrow> client_state
    \<Rightarrow> horizon_error option \<times> client_state" where
  "checkMemoRequired hz server [] s = (None, s)"
| "checkMemoRequired hz server (address # rest) s =
     (if take 1 address = ''M'' then checkMemoRequired hz server rest s
      else
        (case loadAccount hz server address s of
           (Inr account, s') \<Rightarrow>
             if map_of (data_attr account) ''config.memo_required'' = Some ''MQ==''
             then (Some (HorizonError ''account requires memo'' None), s')
             else checkMemoRequired hz server rest s'
         | (Inl error, s') \<Rightarrow>
             if response_status error = Some 404
             then checkMemoRequired hz server rest s'
             else (Some error, s')))"

text \<open>The elements of a list, each at its first place only.\<close>

fun first_occurrences :: "'a list \<Rightarrow> 'a list" where
  "first_occurrences [] = []"
| "first_occurrences (x # xs) = x # first_occurrences (filter (\<lambda>y. y \<noteq> x) xs)"

definition post_transaction :: "horizon \<Rightarrow> HorizonServer \<Rightarrow> Transaction \<Rightarrow> client_state
    \<Rightarrow> (horizon_error + string) \<times> client_state" where
  "post_transaction hz server transaction s =
     (let (d, r) = submitTransaction_reply hz (clock s) server transaction
      in (r, \<lparr>clock = clock s + d,
              sent = sent s @ [(clock s, Horizon server (SubmitTransaction transaction))]\<rparr>))"

definition submitTransaction :: "horizon \<Rightarrow> HorizonServer \<Rightarrow> Transaction \<Rightarrow> client_state
    \<Rightarrow> (horizon_error + string) \<times> client_state" where
  "submitTransaction hz server transaction s =
     (if tx_memo transaction \<noteq> None then post_transaction hz server transaction s
      else
        (case checkMemoRequired hz server
                (first_occurrences (map destination (tx_operations transaction))) s of
           (Some error, s') \<Rightarrow> (Inl error, s')
         | (None, s') \<Rightarrow> post_transaction hz server transaction s'))"

definition transaction_call :: "horizon \<Rightarrow> HorizonServer \<Rightarrow> string \<Rightarrow> client_state
    \<Rightarrow> (horizon_error + TransactionRecord) \<times> client_state" where
  "transaction_call hz server transactionHash s =
     (let (d, r) = transaction_reply hz (clock s) server transactionHash
      in (r, \<lparr>clock = clock s + d,
              sent = sent s @ [(clock s, Horizon server (TransactionCall transactionHash))]\<rparr>))"

definition operations_call :: "horizon \<Rightarrow> HorizonServer \<Rightarrow> string \<Rightarrow> client_state
    \<Rightarrow> (horizon_error + OperationRecord list) \<times> client_state" where
  "operations_call hz server transactionHash s =
     (let (d, r) = operations_reply hz (clock s) server transactionHash
      in (r, \<lparr>clock = clock s + d,
              sent = sent s @
                [(clock s, Horizon server (OperationsForTransaction transactionHash))]\<rparr>))"

text \<open>\<open>await new Promise(resolve => setTimeout(resolve, ms))\<close>\<close>

definition sleep :: "nat \<Rightarrow> client_state \<Rightarrow> client_state" where
  "sleep ms s = s\<lparr>clock := clock s + ms\<rparr>"

section \<open>The facilitator client (\<open>lib/facilitator-client.ts\<close>)\<close>

definition verify_request :: "string \<Rightarrow> string \<Rightarrow> string \<Rightarrow> string \<Rightarrow> string \<Rightarrow> http_request"
  where
  "verify_request facilitatorUrl signedTransaction expectedRecipient expectedAmount
       expectedNetwork =
     \<lparr>req_url = facilitatorUrl,
      req_method = ''POST'',
      req_headers = [(''Content-Type'', ''application/json'')],
      req_body = JObj [(''signedTransaction'', JStr signedTransaction),
                       (''expectedRecipient'', JStr expectedRecipient),
                       (''expectedAmount'', JStr expectedAmount),
                       (''expectedNetwork'', JStr expectedNetwork)]\<rparr>"

text \<open>The \<open>try\<close> block of \<open>verifyPayment\<close>: \<open>Inl\<close> is what reaches the \<open>catch\<close>.\<close>

definition verifyPayment_try :: "facilitator \<Rightarrow> string \<Rightarrow> string \<Rightarrow> string \<Rightarrow> string
    \<Rightarrow> string \<Rightarrow> client_state \<Rightarrow> (thrown + jsval) \<times> client_state" where
  "verifyPayment_try fac facilitatorUrl signedTransaction expectedRecipient expectedAmount
       expectedNetwork s =
     (case fetch fac (verify_request facilitatorUrl signedTransaction expectedRecipient
                        expectedAmount expectedNetwork) s of
        (Inl e, s') \<Rightarrow> (Inl e, s')
      | (Inr response, s') \<Rightarrow>
          (case json response of
             Inl e \<Rightarrow> (Inl e, s')
           | Inr data \<Rightarrow>
               if \<not> ok response then
                 (case get_prop data ''error'' of
                    Inl e \<Rightarrow> (Inl e, s')
                  | Inr err \<Rightarrow>
                      (case get_prop data ''message'' of
                         Inl e \<Rightarrow> (Inl e, s')
                       | Inr msg \<Rightarrow>
                           (Inr (JObj [(''valid'', JBool False),
                                       (''error'', js_or err (JStr ''Verification failed'')),
                                       (''message'', js_or msg
                                          (JStr (''HTTP '' @ string_of_nat (status response))))]),
                            s')))
               else (Inr data, s')))"

definition verifyPayment :: "facilitator \<Rightarrow> string \<Rightarrow> string \<Rightarrow> string \<Rightarrow> string
    \<Rightarrow> string option \<Rightarrow> client_state \<Rightarrow> (thrown + jsval) \<times> client_state" where
  "verifyPayment fac facilitatorUrl signedTransaction expectedRecipient expectedAmount
       expectedNetwork s =
     (case verifyPayment_try fac facilitatorUrl signedTransaction expectedRecipient
             expectedAmount (or_default expectedNetwork ''stellar-testnet'') s of
        (Inr r, s') \<Rightarrow> (Inr r, s')
      | (Inl error, s') \<Rightarrow>
          (Inr (JObj [(''valid'', JBool False),
                      (''error'', JStr ''Network error''),
                      (''message'', JStr (thrown_message error))]),
           s'))"

definition settle_request :: "string \<Rightarrow> string \<Rightarrow> string \<Rightarrow> http_request" where
  "settle_request facilitatorUrl signedTransaction expectedNetwork =
     \<lparr>req_url = facilitatorUrl,
      req_method = ''POST'',
      req_headers = [(''Content-Type'', ''application/json'')],
      req_body = JObj [(''signedTransaction'', JStr signedTransaction),
                       (''expectedNetwork'', JStr expectedNetwork)]\<rparr>"

definition settlePayment_try :: "facilitator \<Rightarrow> string \<Rightarrow> string \<Rightarrow> string \<Rightarrow> client_state
    \<Rightarrow> (thrown + jsval) \<times> client_state" where
  "settlePayment_try fac facilitatorUrl signedTransaction expectedNetwork s =
     (case fetch fac (settle_request facilitatorUrl signedTransaction expectedNetwork) s of
        (Inl e, s') \<Rightarrow> (Inl e, s')
      | (Inr response, s') \<Rightarrow>
          (case json response of
             Inl e \<Rightarrow> (Inl e, s')
           | Inr data \<Rightarrow>
               if \<not> ok response then
                 (case get_prop data ''error'' of
                    Inl e \<Rightarrow> (Inl e, s')
                  | Inr err \<Rightarrow>
                      (case get_prop data ''message'' of
                         Inl e \<Rightarrow> (Inl e, s')
                       | Inr msg \<Rightarrow>
                           (Inr (JObj [(''settled'', JBool False),
                                       (''error'', js_or err (JStr ''Settlement failed'')),
                                       (''message'', js_or msg
                                          (JStr (''HTTP '' @ string_of_nat (status response))))]),
                            s')))
               else (Inr data, s')))"

definition settlePayment :: "facilitator \<Rightarrow> string \<Rightarrow> string \<Rightarrow> string option \<Rightarrow> client_state
    \<Rightarrow> (thrown + jsval) \<times> client_state" where
  "settlePayment fac facilitatorUrl signedTransaction expectedNetwork s =
     (case settlePayment_try fac facilitatorUrl signedTransaction
             (or_default expectedNetwork ''stellar-testnet'') s of
        (Inr r, s') \<Rightarrow> (Inr r, s')
      | (Inl error, s') \<Rightarrow>
          (Inr (JObj [(''settled'', JBool False),
                      (''error'', JStr ''Network error''),
                      (''message'', JStr (thrown_message error))]),
           s'))"

text \<open>
  \<open>createPaymentResponse\<close> reads seven properties of its argument, an object (the
  parameter's type \<open>SettlePaymentResponse\<close> admits neither \<open>null\<close> nor \<open>undefined\<close>).
\<close>

definition createPaymentResponse :: "(string \<times> jsval) list \<Rightarrow> jsval" where
  "createPaymentResponse settlementResult =
     JObj [(''transactionHash'', own_prop settlementResult ''transactionHash''),
           (''amount'', own_prop settlementResult ''amount''),
           (''currency'', JStr ''XLM''),
           (''recipient'', own_prop settlementResult ''recipient''),
           (''network'', own_prop settlementResult ''network''),
           (''timestamp'', own_prop settlementResult ''timestamp''),
           (''status'', own_prop settlementResult ''status'')]"

definition verifyPaymentSimple :: "facilitator \<Rightarrow> string \<Rightarrow> string \<Rightarrow> string \<Rightarrow> string
    \<Rightarrow> string option \<Rightarrow> client_state \<Rightarrow> (thrown + jsval) \<times> client_state" where
  "verifyPaymentSimple fac facilitatorUrl signedTransaction expectedRecipient expectedAmount
       expectedNetwork s =
     (if facilitatorUrl = [] then
        (Inl (ErrorInstance ''Facilitator URL is required - no default available''), s)
      else verifyPayment fac (facilitatorUrl @ ''/verify'') signedTransaction expectedRecipient
             expectedAmount (Some (or_default expectedNetwork ''stellar-testnet'')) s)"

definition settlePaymentSimple :: "facilitator \<Rightarrow> string \<Rightarrow> string \<Rightarrow> string option
    \<Rightarrow> client_state \<Rightarrow> (thrown + jsval) \<times> client_state" where
  "settlePaymentSimple fac facilitatorUrl signedTransaction expectedNetwork s =
     (if facilitatorUrl = [] then
        (Inl (ErrorInstance ''Facilitator URL is required - no default available''), s)
      else settlePayment fac (facilitatorUrl @ ''/settle'') signedTransaction
             (Some (or_default expectedNetwork ''stellar-testnet'')) s)"

section \<open>The wire types (\<open>lib/x402-protocol-types.ts\<close>)\<close>

text \<open>
  Whether a run-time value has one of the declared interface types: every required
  property is there with its type, every optional one is absent or has its type.
\<close>

fun is_string :: "jsval \<Rightarrow> bool" where
  "is_string (JStr s) = True"
| "is_string v = False"

fun is_number :: "jsval \<Rightarrow> bool" where
  "is_number (JNum n) = True"
| "is_number v = False"

fun is_boolean :: "jsval \<Rightarrow> bool" where
  "is_boolean (JBool b) = True"
| "is_boolean v = False"

fun is_string_or_null :: "jsval \<Rightarrow> bool" where
  "is_string_or_null (JStr s) = True"
| "is_string_or_null JNull = True"
| "is_string_or_null v = False"

text \<open>\<open>outputSchema?: object | null\<close> and \<open>extra?: object | null\<close>\<close>

fun is_optional_object_or_null :: "jsval \<Rightarrow> bool" where
  "is_optional_object_or_null JUndefined = True"
| "is_optional_object_or_null JNull = True"
| "is_optional_object_or_null (JObj kvs) = True"
| "is_optional_object_or_null (JArr xs) = True"
| "is_optional_object_or_null v = False"

fun is_PaymentRequirements :: "jsval \<Rightarrow> bool" where
  "is_PaymentRequirements (JObj kvs) =
     (is_string (own_prop kvs ''scheme'') \<and>
      is_string (own_prop kvs ''network'') \<and>
      is_string (own_prop kvs ''maxAmountRequired'') \<and>
      is_string (own_prop kvs ''resource'') \<and>
      is_string (own_prop kvs ''description'') \<and>
      is_string (own_prop kvs ''mimeType'') \<and>
      is_optional_object_or_null (own_prop kvs ''outputSchema'') \<and>
      is_string (own_prop kvs ''payTo'') \<and>
      is_number (own_prop kvs ''maxTimeoutSeconds'') \<and>
      is_optional_object_or_null (own_prop kvs ''extra''))"
| "is_PaymentRequirements v = False"

fun is_VerifyRequest :: "jsval \<Rightarrow> bool" where
  "is_VerifyRequest (JObj kvs) =
     (is_number (own_prop kvs ''x402Version'') \<and>
      is_string (own_prop kvs ''paymentHeader'') \<and>
      is_PaymentRequirements (own_prop kvs ''paymentRequirements''))"
| "is_VerifyRequest v = False"

fun is_SettleRequest :: "jsval \<Rightarrow> bool" where
  "is_SettleRequest (JObj kvs) =
     (is_number (own_prop kvs ''x402Version'') \<and>
      is_string (own_prop kvs ''paymentHeader'') \<and>
      is_PaymentRequirements (own_prop kvs ''paymentRequirements''))"
| "is_SettleRequest v = False"

fun is_SettleResponse :: "jsval \<Rightarrow> bool" where
  "is_SettleResponse (JObj kvs) =
     (is_boolean (own_prop kvs ''success'') \<and>
      is_string_or_null (own_prop kvs ''error'') \<and>
      is_string_or_null (own_prop kvs ''txHash'') \<and>
      is_string_or_null (own_prop kvs ''networkId''))"
| "is_SettleResponse v = False"

fun is_PaymentResponseHeader :: "jsval \<Rightarrow> bool" where
  "is_PaymentResponseHeader (JObj kvs) = is_SettleResponse (own_prop kvs ''settlement'')"
| "is_PaymentResponseHeader v = False"

text \<open>The legacy interface \<open>VerifyPaymentRequest\<close> of \<open>facilitator-client.ts\<close>.\<close>

fun is_VerifyPaymentRequest :: "jsval \<Rightarrow> bool" where
  "is_VerifyPaymentRequest (JObj kvs) =
     (is_string (own_prop kvs ''signedTransaction'') \<and>
      is_string (own_prop kvs ''expectedRecipient'') \<and>
      is_string (own_prop kvs ''expectedAmount'') \<and>
      is_string (own_prop kvs ''expectedNetwork''))"
| "is_VerifyPaymentRequest v = False"


section \<open>The Stellar utilities\<close>

subsection \<open>Strings\<close>

text \<open>
  Strings are strings of ASCII characters.  \<open>String.prototype.toLowerCase\<close> maps the
  letters \<open>A\<close> to \<open>Z\<close> to \<open>a\<close> to \<open>z\<close> and keeps every other character.
\<close>

definition lower_char :: "char \<Rightarrow> char" where
  "lower_char c =
     (case map_of (zip ''ABCDEFGHIJKLMNOPQRSTUVWXYZ'' ''abcdefghijklmnopqrstuvwxyz'') c of
        None \<Rightarrow> c
      | Some l \<Rightarrow> l)"

definition toLowerCase :: "string \<Rightarrow> string" where
  "toLowerCase s = map lower_char s"

text \<open>
  \<open>s.replace(pattern, replacement)\<close> with a string pattern: the first occurrence of the
  pattern is replaced, wherever it is (the replacements used have no \<open>$\<close>).
\<close>

fun replace :: "string \<Rightarrow> string \<Rightarrow> string \<Rightarrow> string" where
  "replace [] pattern replacement = (if pattern = [] then replacement else [])"
| "replace (c # cs) pattern replacement =
     (if take (length pattern) (c # cs) = pattern
      then replacement @ drop (length pattern) (c # cs)
      else c # replace cs pattern replacement)"

subsection \<open>Networks\<close>

text \<open>
  The constants \<open>Networks.PUBLIC\<close>, \<open>Networks.TESTNET\<close>, \<open>Networks.FUTURENET\<close> and
  \<open>Networks.STANDALONE\<close> of the Stellar SDK, which is not part of the repository: their
  values are the ones the comments beside their uses in \<open>getNetworkPassphrase\<close> give.
  \<open>BASE_FEE\<close> is the SDK's \<open>"100"\<close>.
\<close>

definition Networks_PUBLIC :: string where
  "Networks_PUBLIC = ''Public Global Stellar Network ; September 2015''"

definition Networks_TESTNET :: string where
  "Networks_TESTNET = ''Test SDF Network ; September 2015''"

definition Networks_FUTURENET :: string where
  "Networks_FUTURENET = ''Test SDF Future Network ; October 2022''"

definition Networks_STANDALONE :: string where
  "Networks_STANDALONE = ''Standalone Network ; February 2017''"

definition BASE_FEE :: string where
  "BASE_FEE = ''100''"

text \<open>The constants of \<open>lib/x402-protocol-types.ts\<close>.\<close>

definition STELLAR_MAINNET :: string where
  "STELLAR_MAINNET = ''stellar-mainnet''"

definition STELLAR_TESTNET :: string where
  "STELLAR_TESTNET = ''stellar-testnet''"

definition STELLAR_FUTURENET :: string where
  "STELLAR_FUTURENET = ''stellar-futurenet''"

definition NETWORK_PASSPHRASES :: "string \<rightharpoonup> string" where
  "NETWORK_PASSPHRASES =
     map_of [(STELLAR_MAINNET, ''Public Global Stellar Network ; September 2015''),
             (STELLAR_TESTNET, ''Test SDF Network ; September 2015''),
             (STELLAR_FUTURENET, ''Test SDF Future Network ; October 2022'')]"

text \<open>The warning \<open>console.warn\<close> prints for an unknown network is not modelled.\<close>

definition getHorizonClient :: "string option \<Rightarrow> HorizonServer" where
  "getHorizonClient network_opt =
     (let network = or_default network_opt ''stellar-testnet'';
          normalizedNetwork =
            replace (replace (toLowerCase network) ''stellar-'' '''') ''public'' ''mainnet''
      in if normalizedNetwork = ''mainnet'' then
           \<lparr>serverURL = ''https://horizon.stellar.org'', allowHttp = False\<rparr>
         else if normalizedNetwork = ''testnet'' then
           \<lparr>serverURL = ''https://horizon-testnet.stellar.org'', allowHttp = False\<rparr>
         else if normalizedNetwork = ''futurenet'' then
           \<lparr>serverURL = ''https://horizon-futurenet.stellar.org'', allowHttp = False\<rparr>
         else if normalizedNetwork = ''local'' \<or> normalizedNetwork = ''standalone'' then
           \<lparr>serverURL = ''http://localhost:8000'', allowHttp = True\<rparr>
         else \<lparr>serverURL = ''https://horizon-testnet.stellar.org'', allowHttp = False\<rparr>)"

definition getNetworkPassphrase :: "string option \<Rightarrow> string" where
  "getNetworkPassphrase network_opt =
     (let network = or_default network_opt ''stellar-testnet'';
          normalizedNetwork =
            replace (replace (toLowerCase network) ''stellar-'' '''') ''public'' ''mainnet''
      in if normalizedNetwork = ''mainnet'' then Networks_PUBLIC
         else if normalizedNetwork = ''testnet'' then Networks_TESTNET
         else if normalizedNetwork = ''futurenet'' then Networks_FUTURENET
         else if normalizedNetwork = ''local'' \<or> normalizedNetwork = ''standalone'' then
           Networks_STANDALONE
         else Networks_TESTNET)"

text \<open>
  Which Stellar network a Horizon URL serves and which one a passphrase names, for the
  URLs and passphrases the two functions can return.
\<close>

datatype stellar_network = Mainnet | Testnet | Futurenet | Standalone

definition network_of_url :: "string \<Rightarrow> stellar_network option" where
  "network_of_url =
     map_of [(''https://horizon.stellar.org'', Mainnet),
             (''https://horizon-testnet.stellar.org'', Testnet),
             (''https://horizon-futurenet.stellar.org'', Futurenet),
             (''http://localhost:8000'', Standalone)]"

definition network_of_passphrase :: "string \<Rightarrow> stellar_network option" where
  "network_of_passphrase =
     map_of [(Networks_PUBLIC, Mainnet),
             (Networks_TESTNET, Testnet),
             (Networks_FUTURENET, Futurenet),
             (Networks_STANDALONE, Standalone)]"

subsection \<open>Errors\<close>

text \<open>
  What a utility throws: an error of a Horizon call passed on as it is, a thrown value of
  its own, or the \<open>Error\<close> whose message is \<open>Transaction failed:\<close> followed by the JSON
  text of the result codes (kept as the value, not printed).
\<close>

datatype stellar_error =
    Rethrown horizon_error
  | Raised thrown
  | TransactionFailed jsval

text \<open>\<open>v?.k\<close>\<close>

fun opt_chain :: "jsval \<Rightarrow> string \<Rightarrow> thrown + jsval" where
  "opt_chain JUndefined k = Inr JUndefined"
| "opt_chain JNull k = Inr JUndefined"
| "opt_chain v k = get_prop v k"

text \<open>A string argument counts as given when it is there and not empty (\<open>!x\<close> is false).\<close>

fun given :: "string option \<Rightarrow> bool" where
  "given None = False"
| "given (Some x) = (x \<noteq> [])"

subsection \<open>Keys and transactions\<close>

definition getKeypairFromSecret :: "stellar_sdk \<Rightarrow> string \<Rightarrow> stellar_error + Keypair" where
  "getKeypairFromSecret sdk secretKey =
     (case fromSecret sdk secretKey of
        Inr keypair \<Rightarrow> Inr keypair
      | Inl error \<Rightarrow>
          Inl (Raised (ErrorInstance (''Invalid Stellar secret key: '' @ thrown_message error))))"

text \<open>
  \<open>buildPaymentTransaction\<close>.  The transaction gets the sequence number that follows
  the one of the loaded account.  A memo that is given is made with \<open>Horizon.Memo.text\<close>;
  the SDK's \<open>Horizon\<close> has no \<open>Memo\<close>, so that this throws a \<open>TypeError\<close>, and a
  transaction that is built has no memo.
\<close>

definition buildPaymentTransaction :: "horizon \<Rightarrow> stellar_sdk \<Rightarrow> Keypair \<Rightarrow> string \<Rightarrow> string
    \<Rightarrow> string option \<Rightarrow> string option \<Rightarrow> client_state
    \<Rightarrow> (stellar_error + Transaction) \<times> client_state" where
  "buildPaymentTransaction hz sdk sourceKeypair destinationAddress amount' network memo s =
     (let horizon = getHorizonClient (Some (or_default network ''stellar-testnet''));
          networkPassphrase = getNetworkPassphrase (Some (or_default network ''stellar-testnet''))
      in case loadAccount hz horizon (publicKey sourceKeypair) s of
           (Inl error, s') \<Rightarrow> (Inl (Rethrown error), s')
         | (Inr sourceAccount, s') \<Rightarrow>
             (case payment sdk destinationAddress amount' of
                Inl error \<Rightarrow> (Inl (Raised error), s')
              | Inr operation \<Rightarrow>
                  if given memo then
                    (Inl (Raised (ErrorInstance
                       ''Cannot read properties of undefined (reading text)'')), s')
                  else
                    (Inr \<lparr>tx_source = accountId sourceAccount,
                          tx_sequence = sequence sourceAccount + 1,
                          tx_fee = BASE_FEE,
                          tx_networkPassphrase = networkPassphrase,
                          tx_operations = [operation],
                          tx_memo = None,
                          tx_timeout = 180,
                          tx_signatures = []\<rparr>,
                     s')))"

text \<open>\<open>transaction.sign(keypair)\<close>\<close>

definition sign :: "Transaction \<Rightarrow> Keypair \<Rightarrow> Transaction" where
  "sign transaction keypair =
     transaction\<lparr>tx_signatures := tx_signatures transaction @ [publicKey keypair]\<rparr>"

definition signAndSubmitPayment :: "horizon \<Rightarrow> stellar_sdk \<Rightarrow> Keypair \<Rightarrow> string \<Rightarrow> string
    \<Rightarrow> string option \<Rightarrow> string option \<Rightarrow> client_state
    \<Rightarrow> (stellar_error + string) \<times> client_state" where
  "signAndSubmitPayment hz sdk sourceKeypair destinationAddress amount' network memo s =
     (let horizon = getHorizonClient (Some (or_default network ''stellar-testnet''))
      in case buildPaymentTransaction hz sdk sourceKeypair destinationAddress amount'
                (Some (or_default network ''stellar-testnet'')) memo s of
           (Inl e, s') \<Rightarrow> (Inl e, s')
         | (Inr transaction, s') \<Rightarrow>
             (case submitTransaction hz horizon (sign transaction sourceKeypair) s' of
                (Inr hash, s'') \<Rightarrow> (Inr hash, s'')
              | (Inl error, s'') \<Rightarrow>
                  if truthy (response_data error) then
                    (case get_prop (response_data error) ''extras'' of
                       Inl e \<Rightarrow> (Inl (Raised e), s'')
                     | Inr extras \<Rightarrow>
                         (case opt_chain extras ''result_codes'' of
                            Inl e \<Rightarrow> (Inl (Raised e), s'')
                          | Inr codes \<Rightarrow> (Inl (TransactionFailed codes), s'')))
                  else (Inl (Rethrown error), s'')))"

subsection \<open>Balances and amounts\<close>

text \<open>The number \<open>10_000_000\<close>\<close>

definition ten_million :: number where
  "ten_million = number_of_int 10000000"

definition getAccountBalance :: "horizon \<Rightarrow> string \<Rightarrow> string option \<Rightarrow> client_state
    \<Rightarrow> (stellar_error + string) \<times> client_state" where
  "getAccountBalance hz accountAddress network s =
     (let horizon = getHorizonClient (Some (or_default network ''stellar-testnet''))
      in case loadAccount hz horizon accountAddress s of
           (Inl error, s') \<Rightarrow> (Inr ''0'', s')
         | (Inr account, s') \<Rightarrow>
             (case find (\<lambda>balance. bal_asset_type balance = ''native'') (balances account) of
                None \<Rightarrow> (Inr ''0'', s')
              | Some nativeBalance \<Rightarrow>
                  (let xlmAmount = parseFloat (bal_balance nativeBalance);
                       stroops = Math_floor (number_mul xlmAmount ten_million)
                   in (Inr (toString stroops), s'))))"

definition xlmToStroops :: "string \<Rightarrow> string" where
  "xlmToStroops xlm =
     (let xlmAmount = parseFloat xlm;
          stroops = Math_floor (number_mul xlmAmount ten_million)
      in toString stroops)"

definition stroopsToXlm :: "string \<Rightarrow> string" where
  "stroopsToXlm stroops =
     (let stroopsAmount = parseInt stroops;
          xlm = number_div stroopsAmount ten_million
      in toString xlm)"

subsection \<open>Looking a transaction up\<close>

text \<open>The \<open>try\<close> block of \<open>verifyTransaction\<close>: \<open>Inl\<close> is what reaches the \<open>catch\<close>.\<close>

definition verifyTransaction_try :: "horizon \<Rightarrow> string \<Rightarrow> string \<Rightarrow> string option
    \<Rightarrow> string option \<Rightarrow> string option \<Rightarrow> client_state
    \<Rightarrow> (horizon_error + bool) \<times> client_state" where
  "verifyTransaction_try hz transactionHash network expectedSender expectedRecipient
       expectedAmount s =
     (let horizon = getHorizonClient (Some network)
      in case transaction_call hz horizon transactionHash s of
           (Inl e, s') \<Rightarrow> (Inl e, s')
         | (Inr transaction, s') \<Rightarrow>
             if \<not> successful transaction then (Inr False, s')
             else if \<not> given expectedSender \<and> \<not> given expectedRecipient
                     \<and> \<not> given expectedAmount then (Inr True, s')
             else if given expectedSender \<and> Some (source_account transaction) \<noteq> expectedSender
               then (Inr False, s')
             else
               (case operations_call hz horizon transactionHash s' of
                  (Inl e, s'') \<Rightarrow> (Inl e, s'')
                | (Inr operations, s'') \<Rightarrow>
                    (case find (\<lambda>op. op_type op = ''payment'' \<and> op_asset_type op = Some ''native'')
                            operations of
                       None \<Rightarrow> (Inr False, s'')
                     | Some paymentOp \<Rightarrow>
                         if given expectedRecipient \<and> op_to paymentOp \<noteq> expectedRecipient
                           then (Inr False, s'')
                         else if given expectedAmount \<and> op_amount paymentOp \<noteq> expectedAmount
                           then (Inr False, s'')
                         else (Inr True, s''))))"

definition verifyTransaction :: "horizon \<Rightarrow> string \<Rightarrow> string option \<Rightarrow> string option
    \<Rightarrow> string option \<Rightarrow> string option \<Rightarrow> client_state
    \<Rightarrow> (stellar_error + bool) \<times> client_state" where
  "verifyTransaction hz transactionHash network expectedSender expectedRecipient
       expectedAmount s =
     (case verifyTransaction_try hz transactionHash (or_default network ''stellar-testnet'')
             expectedSender expectedRecipient expectedAmount s of
        (Inr r, s') \<Rightarrow> (Inr r, s')
      | (Inl error, s') \<Rightarrow> (Inr False, s'))"

text \<open>
  The loop of \<open>waitForTransaction\<close>, from a state: \<open>startTime\<close> and \<open>timeoutMs\<close> are the
  constants of the function.  With an infinite timeout and a transaction that never
  appears the loop does not end: not returning is the value \<open>None\<close>.
\<close>

partial_function (option) waitForTransaction_loop :: "horizon \<Rightarrow> HorizonServer \<Rightarrow> string
    \<Rightarrow> number \<Rightarrow> nat \<Rightarrow> number \<Rightarrow> client_state
    \<Rightarrow> ((stellar_error + bool) \<times> client_state) option" where
  "waitForTransaction_loop hz horizon transactionHash timeoutSeconds startTime timeoutMs s =
     (if int_less_number (int (clock s) - int startTime) timeoutMs then
        (case transaction_call hz horizon transactionHash s of
           (Inr transaction, s') \<Rightarrow> Some (Inr (successful transaction), s')
         | (Inl error, s') \<Rightarrow>
             if response_status error = Some 404 then
               waitForTransaction_loop hz horizon transactionHash timeoutSeconds startTime
                 timeoutMs (sleep 1000 s')
             else Some (Inl (Rethrown error), s'))
      else
        Some (Inl (Raised (ErrorInstance (''Transaction not found after ''
                @ toString timeoutSeconds @ '' seconds''))),
              s))"

declare waitForTransaction_loop.simps [code]

definition waitForTransaction :: "horizon \<Rightarrow> string \<Rightarrow> string option \<Rightarrow> number option
    \<Rightarrow> client_state \<Rightarrow> ((stellar_error + bool) \<times> client_state) option" where
  "waitForTransaction hz transactionHash network timeoutSeconds_opt s =
     (let timeoutSeconds = or_default timeoutSeconds_opt (number_of_int 30);
          horizon = getHorizonClient (Some (or_default network ''stellar-testnet''));
          startTime = clock s;
          timeoutMs = number_mul timeoutSeconds (number_of_int 1000)
      in waitForTransaction_loop hz horizon transactionHash timeoutSeconds startTime timeoutMs s)"

section \<open>What a polling run looks like\<close>

text \<open>Whether a lookup rejected with status 404: the transaction is not found yet.\<close>

fun not_found :: "horizon_error + TransactionRecord \<Rightarrow> bool" where
  "not_found (Inl error) = (response_status error = Some 404)"
| "not_found (Inr transaction) = False"

text \<open>
  The time of the \<open>k\<close>-th lookup of a polling run that starts at \<open>t0\<close>, if the run gets
  that far: the first is made at once, each next one exactly 1000 ms after the answer to
  the one before.
\<close>

fun attempt_time :: "horizon \<Rightarrow> HorizonServer \<Rightarrow> string \<Rightarrow> nat \<Rightarrow> nat \<Rightarrow> nat" where
  "attempt_time hz horizon transactionHash t0 0 = t0"
| "attempt_time hz horizon transactionHash t0 (Suc k) =
     attempt_time hz horizon transactionHash t0 k
     + fst (transaction_reply hz (attempt_time hz horizon transactionHash t0 k) horizon
              transactionHash)
     + 1000"

text \<open>The first \<open>n\<close> lookups of the run, as network calls with their times.\<close>

definition lookups :: "horizon \<Rightarrow> HorizonServer \<Rightarrow> string \<Rightarrow> nat \<Rightarrow> nat \<Rightarrow> (nat \<times> net_call) list"
  where
  "lookups hz horizon transactionHash t0 n =
     map (\<lambda>k. (attempt_time hz horizon transactionHash t0 k,
               Horizon horizon (TransactionCall transactionHash))) [0 ..< n]"

text \<open>Whether, at the time of the \<open>k\<close>-th lookup, less than the timeout has elapsed.\<close>

definition in_time :: "horizon \<Rightarrow> HorizonServer \<Rightarrow> string \<Rightarrow> nat \<Rightarrow> number \<Rightarrow> nat \<Rightarrow> bool" where
  "in_time hz horizon transactionHash t0 timeoutMs k =
     int_less_number (int (attempt_time hz horizon transactionHash t0 k) - int t0) timeoutMs"

text \<open>The answer to the \<open>k\<close>-th lookup: how long it takes, and what it is.\<close>

definition answer :: "horizon \<Rightarrow> HorizonServer \<Rightarrow> string \<Rightarrow> nat \<Rightarrow> nat
    \<Rightarrow> nat \<times> (horizon_error + TransactionRecord)" where
  "answer hz horizon transactionHash t0 k =
     transaction_reply hz (attempt_time hz horizon transactionHash t0 k) horizon transactionHash"

text \<open>
  What \<open>waitForTransaction\<close> makes of an answer that is not a not-found: the success flag
  of the transaction, or the error thrown on.
\<close>

fun lookup_result :: "horizon_error + TransactionRecord \<Rightarrow> stellar_error + bool" where
  "lookup_result (Inr transaction) = Inr (successful transaction)"
| "lookup_result (Inl error) = Inl (Rethrown error)"

section \<open>Example facilitators\<close>

definition state0 :: client_state where
  "state0 = \<lparr>clock = 0, sent = []\<rparr>"

text \<open>A facilitator that cannot be reached: \<open>fetch\<close> rejects after 20 ms.\<close>

definition facilitator_unreachable :: facilitator where
  "facilitator_unreachable t req = (20, Inl (ErrorInstance ''fetch failed''))"

text \<open>A facilitator that answers 400 with \<open>{"error": "bad signature"}\<close> after 50 ms.\<close>

definition facilitator_rejecting :: facilitator where
  "facilitator_rejecting t req =
     (50, Inr \<lparr>ok = False, status = 400,
               json = Inr (JObj [(''error'', JStr ''bad signature'')])\<rparr>)"





section \<open>Example Horizon servers\<close>

text \<open>
  A Horizon on which the transaction appears at time 2000: a lookup before that is
  answered with 404, a later one with the successful transaction, each after 200 ms.
\<close>

definition horizon_confirming :: horizon where
  "horizon_confirming =
     \<lparr>loadAccount_reply = (\<lambda>t server address.
        (150, Inr \<lparr>accountId = address, sequence = 1,
                    balances = [\<lparr>bal_asset_type = ''native'', bal_balance = ''0.0000021''\<rparr>],
                    data_attr = []\<rparr>)),
      submitTransaction_reply = (\<lambda>t server transaction. (300, Inr ''abc123'')),
      transaction_reply = (\<lambda>t server transactionHash.
        if t < 2000 then (200, Inl (HorizonError ''Not Found'' (Some (404, JNull))))
        else (200, Inr \<lparr>successful = True, source_account = ''GSENDER''\<rparr>)),
      operations_reply = (\<lambda>t server transactionHash.
        (100, Inr [\<lparr>op_type = ''payment'', op_asset_type = Some ''native'',
                    op_to = Some ''GDEST'', op_amount = Some ''0.1000000''\<rparr>]))\<rparr>"

text \<open>A Horizon on which the transaction never appears.\<close>

definition horizon_pending :: horizon where
  "horizon_pending =
     horizon_confirming\<lparr>transaction_reply := (\<lambda>t server transactionHash.
        (200, Inl (HorizonError ''Not Found'' (Some (404, JNull)))))\<rparr>"

definition state_late :: client_state where
  "state_late = \<lparr>clock = 5000, sent = []\<rparr>"

definition testnet_server :: HorizonServer where
  "testnet_server = \<lparr>serverURL = ''https://horizon-testnet.stellar.org'', allowHttp = False\<rparr>"

text \<open>An SDK that accepts every secret key, destination and amount.\<close>

definition sdk_accepting :: stellar_sdk where
  "sdk_accepting =
     \<lparr>fromSecret = (\<lambda>secretKey. Inr \<lparr>publicKey = ''GSENDER'', secret = secretKey\<rparr>),
      payment = (\<lambda>address value.
        Inr \<lparr>destination = address, asset = Native, amount = value\<rparr>)\<rparr>"


text \<open>The number 2.5\<close>

definition two_and_a_half :: number where
  "two_and_a_half = to_double False 5 2"

section \<open>The facilitator client: what is sent\<close>

lemma fetch_sent: "sent (snd (fetch fac req s)) = sent s @ [(clock s, Fetch req)]"
  by (simp add: fetch_def split: prod.splits)

lemma verifyPayment_try_sent:
  "sent (snd (verifyPayment_try fac u tx rc am n s)) =
     sent s @ [(clock s, Fetch (verify_request u tx rc am n))]"
  using fetch_sent [of fac "verify_request u tx rc am n" s]
  by (auto simp: verifyPayment_try_def split: prod.splits sum.splits)

lemma verifyPayment_sent:
  "sent (snd (verifyPayment fac u tx rc am n s)) =
     sent s @ [(clock s, Fetch (verify_request u tx rc am (or_default n ''stellar-testnet'')))]"
  using verifyPayment_try_sent [of fac u tx rc am "or_default n ''stellar-testnet''" s]
  by (auto simp: verifyPayment_def split: prod.splits sum.splits)

lemma settlePayment_try_sent:
  "sent (snd (settlePayment_try fac u tx n s)) = sent s @ [(clock s, Fetch (settle_request u tx n))]"
  using fetch_sent [of fac "settle_request u tx n" s]
  by (auto simp: settlePayment_try_def split: prod.splits sum.splits)

lemma settlePayment_sent:
  "sent (snd (settlePayment fac u tx n s)) =
     sent s @ [(clock s, Fetch (settle_request u tx (or_default n ''stellar-testnet'')))]"
  using settlePayment_try_sent [of fac u tx "or_default n ''stellar-testnet''" s]
  by (auto simp: settlePayment_def split: prod.splits sum.splits)

text \<open>
  C1, as the spec states it, fails: the body \<open>verifyPayment\<close> posts has none of the
  properties \<open>x402Version\<close>, \<open>paymentHeader\<close>, \<open>paymentRequirements\<close> of a
  \<open>VerifyRequest\<close>, and the body \<open>settlePayment\<close> posts is no \<open>SettleRequest\<close>.
\<close>

theorem request_bodies_counterexample:
  "sent (snd (verifyPayment facilitator_unreachable ''https://f.example/verify'' ''AAAA''
                ''GDEST'' ''1000000'' None state0)) =
     [(0, Fetch \<lparr>req_url = ''https://f.example/verify'', req_method = ''POST'',
                 req_headers = [(''Content-Type'', ''application/json'')],
                 req_body = JObj [(''signedTransaction'', JStr ''AAAA''),
                                  (''expectedRecipient'', JStr ''GDEST''),
                                  (''expectedAmount'', JStr ''1000000''),
                                  (''expectedNetwork'', JStr ''stellar-testnet'')]\<rparr>)]
   \<and> \<not> is_VerifyRequest
        (JObj [(''signedTransaction'', JStr ''AAAA''), (''expectedRecipient'', JStr ''GDEST''),
               (''expectedAmount'', JStr ''1000000''),
               (''expectedNetwork'', JStr ''stellar-testnet'')])
   \<and> sent (snd (settlePayment facilitator_unreachable ''https://f.example/settle'' ''AAAA''
                None state0)) =
     [(0, Fetch \<lparr>req_url = ''https://f.example/settle'', req_method = ''POST'',
                 req_headers = [(''Content-Type'', ''application/json'')],
                 req_body = JObj [(''signedTransaction'', JStr ''AAAA''),
                                  (''expectedNetwork'', JStr ''stellar-testnet'')]\<rparr>)]
   \<and> \<not> is_SettleRequest
        (JObj [(''signedTransaction'', JStr ''AAAA''),
               (''expectedNetwork'', JStr ''stellar-testnet'')])"
  by (simp add: verifyPayment_sent settlePayment_sent state0_def verify_request_def
      settle_request_def)

text \<open>
  C1, amended: every call of \<open>verifyPayment\<close> sends exactly one request, a POST to the
  given URL with content type \<open>application/json\<close>, whose body is the legacy
  \<open>VerifyPaymentRequest\<close>: the four strings \<open>signedTransaction\<close>, \<open>expectedRecipient\<close>,
  \<open>expectedAmount\<close>, \<open>expectedNetwork\<close> (\<open>stellar-testnet\<close> when omitted); every call of
  \<open>settlePayment\<close> sends exactly one such request whose body has the two strings
  \<open>signedTransaction\<close> and \<open>expectedNetwork\<close>.  Neither body is a \<open>VerifyRequest\<close> or a
  \<open>SettleRequest\<close>.
\<close>

theorem request_bodies_legacy:
  "sent (snd (verifyPayment fac u tx rc am n s)) =
     sent s @
     [(clock s, Fetch
       \<lparr>req_url = u, req_method = ''POST'',
        req_headers = [(''Content-Type'', ''application/json'')],
        req_body = JObj [(''signedTransaction'', JStr tx), (''expectedRecipient'', JStr rc),
                         (''expectedAmount'', JStr am),
                         (''expectedNetwork'', JStr (or_default n ''stellar-testnet''))]\<rparr>)]
   \<and> is_VerifyPaymentRequest
        (JObj [(''signedTransaction'', JStr tx), (''expectedRecipient'', JStr rc),
               (''expectedAmount'', JStr am),
               (''expectedNetwork'', JStr (or_default n ''stellar-testnet''))])
   \<and> \<not> is_VerifyRequest
        (JObj [(''signedTransaction'', JStr tx), (''expectedRecipient'', JStr rc),
               (''expectedAmount'', JStr am),
               (''expectedNetwork'', JStr (or_default n ''stellar-testnet''))])
   \<and> sent (snd (settlePayment fac u' tx' n' s')) =
     sent s' @
     [(clock s', Fetch
       \<lparr>req_url = u', req_method = ''POST'',
        req_headers = [(''Content-Type'', ''application/json'')],
        req_body = JObj [(''signedTransaction'', JStr tx'),
                         (''expectedNetwork'', JStr (or_default n' ''stellar-testnet''))]\<rparr>)]
   \<and> \<not> is_SettleRequest
        (JObj [(''signedTransaction'', JStr tx'),
               (''expectedNetwork'', JStr (or_default n' ''stellar-testnet''))])"
  by (simp add: verifyPayment_sent settlePayment_sent verify_request_def settle_request_def)

section \<open>The facilitator client: failures\<close>

lemma verifyPayment_returns: "\<exists>r. fst (verifyPayment fac u tx rc am n s) = Inr r"
  by (auto simp: verifyPayment_def split: prod.splits sum.splits)

lemma settlePayment_returns: "\<exists>r. fst (settlePayment fac u tx n s) = Inr r"
  by (auto simp: settlePayment_def split: prod.splits sum.splits)



lemma fetch_eq:
  "fetch fac req s =
     (snd (fac (clock s) req),
      \<lparr>clock = clock s + fst (fac (clock s) req), sent = sent s @ [(clock s, Fetch req)]\<rparr>)"
  by (simp add: fetch_def split: prod.splits)






section \<open>The payment response object\<close>

text \<open>
  C3, as the spec states it, fails: given a \<open>SettleResponse\<close>, \<open>createPaymentResponse\<close>
  returns an object with seven properties, none of them \<open>settlement\<close>, which is no
  \<open>PaymentResponseHeader\<close>.
\<close>

theorem createPaymentResponse_counterexample:
  "is_SettleResponse (JObj [(''success'', JBool True), (''error'', JNull),
                            (''txHash'', JStr ''abc123''), (''networkId'', JStr ''stellar-testnet'')])
   \<and> createPaymentResponse [(''success'', JBool True), (''error'', JNull),
                            (''txHash'', JStr ''abc123''), (''networkId'', JStr ''stellar-testnet'')] =
     JObj [(''transactionHash'', JUndefined), (''amount'', JUndefined),
           (''currency'', JStr ''XLM''), (''recipient'', JUndefined), (''network'', JUndefined),
           (''timestamp'', JUndefined), (''status'', JUndefined)]
   \<and> \<not> is_PaymentResponseHeader
        (createPaymentResponse [(''success'', JBool True), (''error'', JNull),
                            (''txHash'', JStr ''abc123''), (''networkId'', JStr ''stellar-testnet'')])"
  by (simp add: createPaymentResponse_def)

text \<open>
  C3, amended: for every settlement result, \<open>createPaymentResponse\<close> returns an object
  with the seven properties \<open>transactionHash\<close>, \<open>amount\<close>, \<open>currency\<close>, \<open>recipient\<close>,
  \<open>network\<close>, \<open>timestamp\<close>, \<open>status\<close>, where \<open>currency\<close> is \<open>"XLM"\<close> and each of the
  others is the property of that name of the settlement result; it has no \<open>settlement\<close>
  property and is no \<open>PaymentResponseHeader\<close>.
\<close>

theorem createPaymentResponse_shape:
  "(\<exists>kvs. createPaymentResponse r = JObj kvs
      \<and> map fst kvs = [''transactionHash'', ''amount'', ''currency'', ''recipient'', ''network'',
                        ''timestamp'', ''status'']
      \<and> own_prop kvs ''currency'' = JStr ''XLM''
      \<and> list_all (\<lambda>k. own_prop kvs k = own_prop r k)
           [''transactionHash'', ''amount'', ''recipient'', ''network'', ''timestamp'', ''status'']
      \<and> own_prop kvs ''settlement'' = JUndefined)
   \<and> \<not> is_PaymentResponseHeader (createPaymentResponse r)"
  by (simp add: createPaymentResponse_def)

section \<open>The convenience wrappers\<close>

text \<open>
  C9: \<open>verifyPaymentSimple\<close> and \<open>settlePaymentSimple\<close> throw exactly when the facilitator
  base URL is empty, and then send nothing; for a non-empty base URL they are
  \<open>verifyPayment\<close> and \<open>settlePayment\<close> at the base URL followed by \<open>/verify\<close> and
  \<open>/settle\<close>; \<open>verifyPayment\<close> and \<open>settlePayment\<close> themselves never throw.
\<close>

theorem simple_wrappers:
  "((\<exists>e. fst (verifyPaymentSimple fac u tx rc am n s) = Inl e) \<longleftrightarrow> u = [])
   \<and> (u = [] \<longrightarrow> verifyPaymentSimple fac u tx rc am n s =
         (Inl (ErrorInstance ''Facilitator URL is required - no default available''), s))
   \<and> (u \<noteq> [] \<longrightarrow> verifyPaymentSimple fac u tx rc am n s =
         verifyPayment fac (u @ ''/verify'') tx rc am n s)
   \<and> ((\<exists>e. fst (settlePaymentSimple fac u tx n s) = Inl e) \<longleftrightarrow> u = [])
   \<and> (u = [] \<longrightarrow> settlePaymentSimple fac u tx n s =
         (Inl (ErrorInstance ''Facilitator URL is required - no default available''), s))
   \<and> (u \<noteq> [] \<longrightarrow> settlePaymentSimple fac u tx n s =
         settlePayment fac (u @ ''/settle'') tx n s)
   \<and> (\<exists>r. fst (verifyPayment fac u tx rc am n s) = Inr r)
   \<and> (\<exists>r. fst (settlePayment fac u tx n s) = Inr r)"
proof -
  have v: "verifyPayment fac (u @ ''/verify'') tx rc am (Some (or_default n ''stellar-testnet'')) s
      = verifyPayment fac (u @ ''/verify'') tx rc am n s"
    by (simp add: verifyPayment_def)
  have t: "settlePayment fac (u @ ''/settle'') tx (Some (or_default n ''stellar-testnet'')) s
      = settlePayment fac (u @ ''/settle'') tx n s"
    by (simp add: settlePayment_def)
  from verifyPayment_returns [of fac "u @ ''/verify''" tx rc am n s]
  have "u \<noteq> [] \<Longrightarrow> \<not> (\<exists>e. fst (verifyPaymentSimple fac u tx rc am n s) = Inl e)"
    by (auto simp: verifyPaymentSimple_def v)
  moreover from settlePayment_returns [of fac "u @ ''/settle''" tx n s]
  have "u \<noteq> [] \<Longrightarrow> \<not> (\<exists>e. fst (settlePaymentSimple fac u tx n s) = Inl e)"
    by (auto simp: settlePaymentSimple_def t)
  moreover have "u = [] \<Longrightarrow> verifyPaymentSimple fac u tx rc am n s =
         (Inl (ErrorInstance ''Facilitator URL is required - no default available''), s)"
    by (simp add: verifyPaymentSimple_def)
  moreover have "u = [] \<Longrightarrow> settlePaymentSimple fac u tx n s =
         (Inl (ErrorInstance ''Facilitator URL is required - no default available''), s)"
    by (simp add: settlePaymentSimple_def)
  moreover have "u \<noteq> [] \<Longrightarrow> verifyPaymentSimple fac u tx rc am n s =
         verifyPayment fac (u @ ''/verify'') tx rc am n s"
    by (simp add: verifyPaymentSimple_def v)
  moreover have "u \<noteq> [] \<Longrightarrow> settlePaymentSimple fac u tx n s =
         settlePayment fac (u @ ''/settle'') tx n s"
    by (simp add: settlePaymentSimple_def t)
  moreover note verifyPayment_returns [of fac u tx rc am n s]
    settlePayment_returns [of fac u tx n s]
  ultimately show ?thesis
    by (cases "u = []") auto
qed

theorem simple_wrappers_witness:
  "verifyPaymentSimple facilitator_rejecting [] ''AAAA'' ''GDEST'' ''1000000'' None state0 =
     (Inl (ErrorInstance ''Facilitator URL is required - no default available''), state0)
   \<and> settlePaymentSimple facilitator_rejecting [] ''AAAA'' None state0 =
     (Inl (ErrorInstance ''Facilitator URL is required - no default available''), state0)
   \<and> ''https://f.example'' \<noteq> []
   \<and> verifyPaymentSimple facilitator_rejecting ''https://f.example'' ''AAAA'' ''GDEST''
        ''1000000'' None state0 =
     verifyPayment facilitator_rejecting ''https://f.example/verify'' ''AAAA'' ''GDEST''
        ''1000000'' None state0
   \<and> settlePaymentSimple facilitator_rejecting ''https://f.example'' ''AAAA'' None state0 =
     settlePayment facilitator_rejecting ''https://f.example/settle'' ''AAAA'' None state0
   \<and> fst (verifyPaymentSimple facilitator_rejecting ''https://f.example'' ''AAAA'' ''GDEST''
        ''1000000'' None state0) =
     Inr (JObj [(''valid'', JBool False), (''error'', JStr ''bad signature''),
                (''message'', JStr ''HTTP 400'')])"
proof -
  have r: "fst (verifyPayment facilitator_rejecting ''https://f.example/verify'' ''AAAA''
        ''GDEST'' ''1000000'' None state0) =
     Inr (JObj [(''valid'', JBool False), (''error'', JStr ''bad signature''),
                (''message'', JStr ''HTTP 400'')])"
    by (simp add: verifyPayment_def verifyPayment_try_def fetch_eq facilitator_rejecting_def
        js_or_def string_of_nat_def digit_char_def)
  from r
    simple_wrappers [of facilitator_rejecting "[]" "''AAAA''" "''GDEST''" "''1000000''" None
      state0]
    simple_wrappers [of facilitator_rejecting "''https://f.example''" "''AAAA''" "''GDEST''"
      "''1000000''" None state0]
  show ?thesis
    by simp
qed

section \<open>The network of a name\<close>

lemma getHorizonClient_default:
  "getHorizonClient (Some (or_default network ''stellar-testnet'')) = getHorizonClient network"
  by (simp add: getHorizonClient_def)

lemma getHorizonClient_testnet:
  "getHorizonClient None = testnet_server"
  "getHorizonClient (Some ''stellar-testnet'') = testnet_server"
  by (simp_all add: getHorizonClient_def testnet_server_def toLowerCase_def lower_char_def)

text \<open>
  C7: for each of \<open>stellar-mainnet\<close>, \<open>stellar-testnet\<close> and \<open>stellar-futurenet\<close>, the
  passphrase \<open>getNetworkPassphrase\<close> returns is the one \<open>NETWORK_PASSPHRASES\<close> records.
\<close>

theorem passphrase_tables_agree:
  "NETWORK_PASSPHRASES STELLAR_MAINNET = Some (getNetworkPassphrase (Some STELLAR_MAINNET))
   \<and> NETWORK_PASSPHRASES STELLAR_TESTNET = Some (getNetworkPassphrase (Some STELLAR_TESTNET))
   \<and> NETWORK_PASSPHRASES STELLAR_FUTURENET = Some (getNetworkPassphrase (Some STELLAR_FUTURENET))
   \<and> getNetworkPassphrase (Some ''stellar-mainnet'') = ''Public Global Stellar Network ; September 2015''
   \<and> getNetworkPassphrase (Some ''stellar-testnet'') = ''Test SDF Network ; September 2015''
   \<and> getNetworkPassphrase (Some ''stellar-futurenet'') = ''Test SDF Future Network ; October 2022''"
  by (simp add: NETWORK_PASSPHRASES_def STELLAR_MAINNET_def STELLAR_TESTNET_def
      STELLAR_FUTURENET_def getNetworkPassphrase_def toLowerCase_def lower_char_def
      Networks_PUBLIC_def Networks_TESTNET_def Networks_FUTURENET_def)

text \<open>
  C8: \<open>getHorizonClient\<close> and \<open>getNetworkPassphrase\<close> normalise the name in the same way
  (lower case, the first \<open>stellar-\<close> removed, the first \<open>public\<close> made \<open>mainnet\<close>) and
  choose by the same cases, an unknown name being the test network in both: for every
  name, and for an omitted one, the Horizon URL and the passphrase are those of one
  network.
\<close>

theorem horizon_and_passphrase_same_network:
  "network_of_url (serverURL (getHorizonClient network)) =
     Some (let n = replace (replace (toLowerCase (or_default network ''stellar-testnet''))
                     ''stellar-'' '''') ''public'' ''mainnet''
           in if n = ''mainnet'' then Mainnet
              else if n = ''testnet'' then Testnet
              else if n = ''futurenet'' then Futurenet
              else if n = ''local'' \<or> n = ''standalone'' then Standalone
              else Testnet)
   \<and> network_of_passphrase (getNetworkPassphrase network) =
       network_of_url (serverURL (getHorizonClient network))"
  by (simp add: getHorizonClient_def getNetworkPassphrase_def network_of_url_def
      network_of_passphrase_def Networks_PUBLIC_def Networks_TESTNET_def Networks_FUTURENET_def
      Networks_STANDALONE_def Let_def)

section \<open>Verifying a transaction\<close>

lemma transaction_call_eq:
  "transaction_call hz sv h s =
     (snd (transaction_reply hz (clock s) sv h),
      \<lparr>clock = clock s + fst (transaction_reply hz (clock s) sv h),
       sent = sent s @ [(clock s, Horizon sv (TransactionCall h))]\<rparr>)"
  by (simp add: transaction_call_def split: prod.splits)

lemma operations_call_eq:
  "operations_call hz sv h s =
     (snd (operations_reply hz (clock s) sv h),
      \<lparr>clock = clock s + fst (operations_reply hz (clock s) sv h),
       sent = sent s @ [(clock s, Horizon sv (OperationsForTransaction h))]\<rparr>)"
  by (simp add: operations_call_def split: prod.splits)

lemma loadAccount_eq:
  "loadAccount hz sv a s =
     (snd (loadAccount_reply hz (clock s) sv a),
      \<lparr>clock = clock s + fst (loadAccount_reply hz (clock s) sv a),
       sent = sent s @ [(clock s, Horizon sv (LoadAccount a))]\<rparr>)"
  by (simp add: loadAccount_def split: prod.splits)

lemma post_transaction_eq:
  "post_transaction hz sv t s =
     (snd (submitTransaction_reply hz (clock s) sv t),
      \<lparr>clock = clock s + fst (submitTransaction_reply hz (clock s) sv t),
       sent = sent s @ [(clock s, Horizon sv (SubmitTransaction t))]\<rparr>)"
  by (simp add: post_transaction_def split: prod.splits)

text \<open>
  C6: \<open>verifyTransaction\<close> never throws and always returns a boolean.  It returns
  \<open>true\<close> exactly when the lookup of the transaction succeeds, the transaction is
  successful, and either no expectation is given, or the given sender is the source
  account, the lookup of the operations succeeds, there is a native payment among them,
  and the given recipient and amount are those of the first one.  In every other case (a
  lookup fails, the transaction failed, no native payment is found, a given expectation
  does not match) it returns \<open>false\<close>.  An expectation is given when the argument is there
  and is not the empty string.
\<close>

theorem verifyTransaction_result:
  "fst (verifyTransaction hz transactionHash network expectedSender expectedRecipient
          expectedAmount s) =
     Inr (let horizon = getHorizonClient (Some (or_default network ''stellar-testnet''));
              lookup = transaction_reply hz (clock s) horizon transactionHash
          in case snd lookup of
               Inl error \<Rightarrow> False
             | Inr transaction \<Rightarrow>
                 successful transaction
                 \<and> ((\<not> given expectedSender \<and> \<not> given expectedRecipient \<and> \<not> given expectedAmount)
                    \<or> ((given expectedSender \<longrightarrow> expectedSender = Some (source_account transaction))
                       \<and> (case snd (operations_reply hz (clock s + fst lookup) horizon
                                      transactionHash) of
                            Inl error \<Rightarrow> False
                          | Inr operations \<Rightarrow>
                              (case find (\<lambda>op. op_type op = ''payment''
                                               \<and> op_asset_type op = Some ''native'') operations of
                                 None \<Rightarrow> False
                               | Some paymentOp \<Rightarrow>
                                   (given expectedRecipient \<longrightarrow> op_to paymentOp = expectedRecipient)
                                   \<and> (given expectedAmount \<longrightarrow> op_amount paymentOp = expectedAmount))))))"
  by (auto simp: verifyTransaction_def verifyTransaction_try_def transaction_call_eq
      operations_call_eq Let_def split: sum.splits option.splits)


theorem verifyTransaction_result_witness:
  "given (Some ''GSENDER'') \<and> given (Some ''GDEST'') \<and> given (Some ''0.1000000'')
   \<and> fst (verifyTransaction horizon_confirming ''abc'' None (Some ''GSENDER'') (Some ''GDEST'')
            (Some ''0.1000000'') state_late) = Inr True
   \<and> fst (verifyTransaction horizon_confirming ''abc'' None (Some ''GSENDER'') (Some ''GOTHER'')
            (Some ''0.1000000'') state_late) = Inr False
   \<and> fst (verifyTransaction horizon_confirming ''abc'' None None None None state_late) = Inr True
   \<and> fst (verifyTransaction horizon_confirming ''abc'' None None None None state0) = Inr False"
  using verifyTransaction_result [of horizon_confirming "''abc''" None "Some ''GSENDER''"
      "Some ''GDEST''" "Some ''0.1000000''" state_late]
    verifyTransaction_result [of horizon_confirming "''abc''" None "Some ''GSENDER''"
      "Some ''GOTHER''" "Some ''0.1000000''" state_late]
    verifyTransaction_result [of horizon_confirming "''abc''" None None None None state_late]
    verifyTransaction_result [of horizon_confirming "''abc''" None None None None state0]
  by (simp add: horizon_confirming_def state_late_def state0_def)

section \<open>Waiting for a transaction\<close>

lemma lookups_Suc:
  "lookups hz sv h t0 (Suc n) =
     lookups hz sv h t0 n @ [(attempt_time hz sv h t0 n, Horizon sv (TransactionCall h))]"
  by (simp add: lookups_def)

lemma loop_timeout:
  "\<not> int_less_number (int (clock s) - int start) tmo \<Longrightarrow>
   waitForTransaction_loop hz sv h ts start tmo s =
     Some (Inl (Raised (ErrorInstance (''Transaction not found after '' @ toString ts
                                        @ '' seconds''))), s)"
  by (subst waitForTransaction_loop.simps) simp

lemma loop_answer:
  "int_less_number (int (clock s) - int start) tmo \<Longrightarrow>
   \<not> not_found (snd (transaction_reply hz (clock s) sv h)) \<Longrightarrow>
   waitForTransaction_loop hz sv h ts start tmo s =
     Some (lookup_result (snd (transaction_reply hz (clock s) sv h)),
           \<lparr>clock = clock s + fst (transaction_reply hz (clock s) sv h),
            sent = sent s @ [(clock s, Horizon sv (TransactionCall h))]\<rparr>)"
  by (subst waitForTransaction_loop.simps)
    (cases "snd (transaction_reply hz (clock s) sv h)"; simp add: transaction_call_eq)

lemma loop_again:
  "int_less_number (int (clock s) - int start) tmo \<Longrightarrow>
   not_found (snd (transaction_reply hz (clock s) sv h)) \<Longrightarrow>
   waitForTransaction_loop hz sv h ts start tmo s =
     waitForTransaction_loop hz sv h ts start tmo
       \<lparr>clock = clock s + fst (transaction_reply hz (clock s) sv h) + 1000,
        sent = sent s @ [(clock s, Horizon sv (TransactionCall h))]\<rparr>"
  by (subst waitForTransaction_loop.simps)
    (cases "snd (transaction_reply hz (clock s) sv h)"; simp add: transaction_call_eq sleep_def)

lemma loop_steps:
  "\<forall>k<n. int_less_number (int (attempt_time hz sv h (clock s) k) - int start) tmo
          \<and> not_found (snd (answer hz sv h (clock s) k)) \<Longrightarrow>
   waitForTransaction_loop hz sv h ts start tmo s =
     waitForTransaction_loop hz sv h ts start tmo
       \<lparr>clock = attempt_time hz sv h (clock s) n, sent = sent s @ lookups hz sv h (clock s) n\<rparr>"
proof (induction n)
  case 0
  show ?case
    by (cases s) (simp add: lookups_def)
next
  case (Suc n)
  let ?sn = "\<lparr>clock = attempt_time hz sv h (clock s) n,
              sent = sent s @ lookups hz sv h (clock s) n\<rparr>"
  from Suc.prems have "waitForTransaction_loop hz sv h ts start tmo s =
      waitForTransaction_loop hz sv h ts start tmo ?sn"
    by (intro Suc.IH) simp
  also from Suc.prems have "\<dots> = waitForTransaction_loop hz sv h ts start tmo
      \<lparr>clock = clock ?sn + fst (transaction_reply hz (clock ?sn) sv h) + 1000,
       sent = sent ?sn @ [(clock ?sn, Horizon sv (TransactionCall h))]\<rparr>"
    by (intro loop_again) (simp_all add: answer_def)
  finally show ?case
    by (simp add: lookups_Suc)
qed

lemma attempt_time_shift:
  "attempt_time hz sv h (t0 + fst (transaction_reply hz t0 sv h) + 1000) k =
     attempt_time hz sv h t0 (Suc k)"
  by (induction k) simp_all

lemma attempt_time_ge: "t0 + 1000 * k \<le> attempt_time hz sv h t0 k"
  by (induction k) auto

lemma int_less_number_mono: "int_less_number a x \<Longrightarrow> b \<le> a \<Longrightarrow> int_less_number b x"
proof (cases x)
  case (Fin m e)
  assume a: "int_less_number a x" and b: "b \<le> a"
  show ?thesis
  proof (cases "0 \<le> e")
    case True
    with a b Fin show ?thesis by simp
  next
    case False
    from b have "b * 2 ^ nat (- e) \<le> a * 2 ^ nat (- e)"
      by (simp add: mult_right_mono)
    moreover from a False Fin have "a * 2 ^ nat (- e) < m"
      by simp
    ultimately have "b * 2 ^ nat (- e) < m"
      by (rule le_less_trans)
    with False Fin show ?thesis by simp
  qed
qed simp_all

text \<open>An integer above every integer that is less than a finite number.\<close>

lemma int_less_number_bound:
  "x \<noteq> PosInfinity \<Longrightarrow> \<exists>B. \<forall>i. int_less_number i x \<longrightarrow> i < B"
proof (cases x)
  case (Fin m e)
  show ?thesis
  proof (cases "0 \<le> e")
    case True
    with Fin show ?thesis by auto
  next
    case False
    have "\<forall>i. int_less_number i x \<longrightarrow> i < max m 1"
    proof (intro allI impI)
      fix i
      assume "int_less_number i x"
      with False Fin have lt: "i * 2 ^ nat (- e) < m"
        by simp
      show "i < max m 1"
      proof (cases "0 < i")
        case True
        have "(1::int) \<le> 2 ^ nat (- e)"
          by simp
        with True have "i * 1 \<le> i * 2 ^ nat (- e)"
          by (intro mult_left_mono) simp_all
        with lt show ?thesis by simp
      next
        case False
        then show ?thesis by simp
      qed
    qed
    then show ?thesis by blast
  qed
qed auto

lemma loop_returns:
  assumes "tmo \<noteq> PosInfinity"
  shows "\<exists>r. waitForTransaction_loop hz sv h ts start tmo s = Some r"
proof -
  from int_less_number_bound [OF assms]
  obtain B where B: "\<And>i. int_less_number i tmo \<Longrightarrow> i < B"
    by blast
  show ?thesis
  proof (induction "nat (B - (int (clock s) - int start))" arbitrary: s rule: less_induct)
    case less
    show ?case
    proof (cases "int_less_number (int (clock s) - int start) tmo")
      case False
      then show ?thesis
        by (simp add: loop_timeout)
    next
      case True
      show ?thesis
      proof (cases "not_found (snd (transaction_reply hz (clock s) sv h))")
        case False
        with True show ?thesis
          by (simp add: loop_answer)
      next
        case nf: True
        let ?s' = "\<lparr>clock = clock s + fst (transaction_reply hz (clock s) sv h) + 1000,
                    sent = sent s @ [(clock s, Horizon sv (TransactionCall h))]\<rparr>"
        from B [OF True] have "nat (B - (int (clock ?s') - int start))
            < nat (B - (int (clock s) - int start))"
          by simp
        from less [OF this] show ?thesis
          by (simp add: loop_again [OF True nf])
      qed
    qed
  qed
qed

lemma loop_some_stops:
  assumes "waitForTransaction_loop hz sv h ts start tmo s = Some y"
  shows "\<exists>k. \<not> (int_less_number (int (attempt_time hz sv h (clock s) k) - int start) tmo
          \<and> not_found (snd (answer hz sv h (clock s) k)))"
  using assms
proof (induction hz sv h ts start tmo s y rule: waitForTransaction_loop.raw_induct)
  case (1 loop hz sv h ts start tmo s y)
  show ?case
  proof (cases "int_less_number (int (clock s) - int start) tmo
      \<and> not_found (snd (transaction_reply hz (clock s) sv h))")
    case False
    then have "\<not> (int_less_number (int (attempt_time hz sv h (clock s) 0) - int start) tmo
          \<and> not_found (snd (answer hz sv h (clock s) 0)))"
      by (simp add: answer_def)
    then show ?thesis
      by blast
  next
    case True
    let ?s' = "\<lparr>clock = clock s + fst (transaction_reply hz (clock s) sv h) + 1000,
                sent = sent s @ [(clock s, Horizon sv (TransactionCall h))]\<rparr>"
    from True "1"(2) have "loop hz sv h ts start tmo ?s' = Some y"
      by (cases "snd (transaction_reply hz (clock s) sv h)")
        (simp_all add: transaction_call_eq sleep_def)
    moreover from True "1"(3)
    have "waitForTransaction_loop hz sv h ts start tmo ?s' = Some y"
      by (simp add: loop_again)
    ultimately obtain k where
      "\<not> (int_less_number (int (attempt_time hz sv h (clock ?s') k) - int start) tmo
          \<and> not_found (snd (answer hz sv h (clock ?s') k)))"
      using "1"(1) by blast
    then have "\<not> (int_less_number (int (attempt_time hz sv h (clock s) (Suc k)) - int start) tmo
          \<and> not_found (snd (answer hz sv h (clock s) (Suc k))))"
      by (simp add: answer_def attempt_time_shift del: attempt_time.simps)
    then show ?thesis
      by blast
  qed
qed (rule assms)

lemma loop_never:
  assumes "\<forall>k. int_less_number (int (attempt_time hz sv h (clock s) k) - int start) tmo
          \<and> not_found (snd (answer hz sv h (clock s) k))"
  shows "waitForTransaction_loop hz sv h ts start tmo s = None"
proof (cases "waitForTransaction_loop hz sv h ts start tmo s")
  case (Some y)
  from loop_some_stops [OF this] assms show ?thesis
    by blast
qed simp

lemma waitForTransaction_loop_eq:
  "waitForTransaction hz h network ts s =
     waitForTransaction_loop hz (getHorizonClient network) h (or_default ts (number_of_int 30))
       (clock s) (number_mul (or_default ts (number_of_int 30)) (number_of_int 1000)) s"
  by (simp add: waitForTransaction_def Let_def getHorizonClient_default)

lemma waitForTransaction_exact:
  fixes hz h network ts s n
  defines "sv \<equiv> getHorizonClient network"
    and "tmo \<equiv> number_mul (or_default ts (number_of_int 30)) (number_of_int 1000)"
  assumes polling: "\<forall>k<n. in_time hz sv h (clock s) tmo k
      \<and> not_found (snd (answer hz sv h (clock s) k))"
  shows "\<not> in_time hz sv h (clock s) tmo n \<Longrightarrow>
      waitForTransaction hz h network ts s =
        Some (Inl (Raised (ErrorInstance (''Transaction not found after ''
                 @ toString (or_default ts (number_of_int 30)) @ '' seconds''))),
              \<lparr>clock = attempt_time hz sv h (clock s) n,
               sent = sent s @ lookups hz sv h (clock s) n\<rparr>)"
    and "in_time hz sv h (clock s) tmo n \<Longrightarrow> \<not> not_found (snd (answer hz sv h (clock s) n)) \<Longrightarrow>
      waitForTransaction hz h network ts s =
        Some (lookup_result (snd (answer hz sv h (clock s) n)),
              \<lparr>clock = attempt_time hz sv h (clock s) n + fst (answer hz sv h (clock s) n),
               sent = sent s @ lookups hz sv h (clock s) (Suc n)\<rparr>)"
proof -
  let ?sn = "\<lparr>clock = attempt_time hz sv h (clock s) n,
              sent = sent s @ lookups hz sv h (clock s) n\<rparr>"
  from polling have steps: "waitForTransaction hz h network ts s =
      waitForTransaction_loop hz sv h (or_default ts (number_of_int 30)) (clock s) tmo ?sn"
    unfolding waitForTransaction_loop_eq sv_def tmo_def
    by (intro loop_steps) (simp add: in_time_def)
  show "\<not> in_time hz sv h (clock s) tmo n \<Longrightarrow>
      waitForTransaction hz h network ts s =
        Some (Inl (Raised (ErrorInstance (''Transaction not found after ''
                 @ toString (or_default ts (number_of_int 30)) @ '' seconds''))),
              \<lparr>clock = attempt_time hz sv h (clock s) n,
               sent = sent s @ lookups hz sv h (clock s) n\<rparr>)"
    by (simp add: steps loop_timeout in_time_def)
  show "in_time hz sv h (clock s) tmo n \<Longrightarrow> \<not> not_found (snd (answer hz sv h (clock s) n)) \<Longrightarrow>
      waitForTransaction hz h network ts s =
        Some (lookup_result (snd (answer hz sv h (clock s) n)),
              \<lparr>clock = attempt_time hz sv h (clock s) n + fst (answer hz sv h (clock s) n),
               sent = sent s @ lookups hz sv h (clock s) (Suc n)\<rparr>)"
    by (simp add: steps loop_answer in_time_def answer_def lookups_Suc)
qed

section \<open>Network calls per invocation\<close>

lemma verifyPayment_count:
  "length (sent (snd (verifyPayment fac u tx rc am n s))) = length (sent s) + 1"
  by (simp add: verifyPayment_sent)

lemma settlePayment_count:
  "length (sent (snd (settlePayment fac u tx n s))) = length (sent s) + 1"
  by (simp add: settlePayment_sent)

lemma buildPaymentTransaction_count:
  "length (sent (snd (buildPaymentTransaction hz sdk kp dst am n memo s))) = length (sent s) + 1"
  by (simp add: buildPaymentTransaction_def loadAccount_eq Let_def split: sum.splits)

lemma buildPaymentTransaction_operations:
  "fst (buildPaymentTransaction hz sdk kp dst am n memo s) = Inr t \<Longrightarrow>
   length (tx_operations t) = 1"
  by (auto simp: buildPaymentTransaction_def loadAccount_eq Let_def
      split: sum.splits if_splits)

lemma first_occurrences_length: "length (first_occurrences xs) \<le> length xs"
proof (induction xs rule: first_occurrences.induct)
  case (2 x xs)
  from 2 have "length (first_occurrences (filter (\<lambda>y. y \<noteq> x) xs)) \<le> length xs"
    by (rule le_trans) (rule length_filter_le)
  then show ?case
    by simp
qed simp

lemma checkMemoRequired_count:
  "length (sent (snd (checkMemoRequired hz sv ds s))) \<le> length (sent s) + length ds"
proof (induction ds arbitrary: s)
  case (Cons d ds)
  let ?s' = "\<lparr>clock = clock s + fst (loadAccount_reply hz (clock s) sv d),
              sent = sent s @ [(clock s, Horizon sv (LoadAccount d))]\<rparr>"
  from Cons [of s] Cons [of ?s'] show ?case
    by (auto simp: loadAccount_eq split: sum.splits)
qed simp

lemma submitTransaction_count:
  "length (sent (snd (submitTransaction hz sv t s))) \<le>
     length (sent s) + length (tx_operations t) + 1"
proof -
  let ?ds = "first_occurrences (map destination (tx_operations t))"
  from checkMemoRequired_count [of hz sv ?ds s] first_occurrences_length [of "map destination (tx_operations t)"]
  have "length (sent (snd (checkMemoRequired hz sv ?ds s))) \<le>
      length (sent s) + length (tx_operations t)"
    by simp
  then show ?thesis
    by (auto simp: submitTransaction_def post_transaction_eq split: prod.splits option.splits)
qed

lemma signAndSubmitPayment_count:
  "length (sent (snd (signAndSubmitPayment hz sdk kp dst am n memo s))) \<le> length (sent s) + 3"
proof (cases "buildPaymentTransaction hz sdk kp dst am (Some (or_default n ''stellar-testnet'')) memo s")
  case (Pair r s')
  from buildPaymentTransaction_count [of hz sdk kp dst am "Some (or_default n ''stellar-testnet'')" memo s]
    Pair
  have len: "length (sent s') = length (sent s) + 1"
    by simp
  show ?thesis
  proof (cases r)
    case (Inl e)
    with Pair len show ?thesis
      by (simp add: signAndSubmitPayment_def Let_def)
  next
    case (Inr t)
    with buildPaymentTransaction_operations [of hz sdk kp dst am "Some (or_default n ''stellar-testnet'')" memo s t]
      Pair
    have "length (tx_operations (sign t kp)) = 1"
      by (simp add: sign_def)
    with submitTransaction_count [of hz "getHorizonClient (Some (or_default n ''stellar-testnet''))" "sign t kp" s'] len
    have "length (sent (snd (submitTransaction hz
        (getHorizonClient (Some (or_default n ''stellar-testnet''))) (sign t kp) s'))) \<le>
        length (sent s) + 3"
      by simp
    with Pair Inr show ?thesis
      by (auto simp: signAndSubmitPayment_def Let_def split: prod.splits sum.splits)
  qed
qed

lemma getAccountBalance_count:
  "length (sent (snd (getAccountBalance hz a n s))) = length (sent s) + 1"
  by (simp add: getAccountBalance_def loadAccount_eq Let_def split: sum.splits option.splits)

lemma verifyTransaction_count:
  "length (sent (snd (verifyTransaction hz h n es er ea s))) \<le> length (sent s) + 2"
  by (simp add: verifyTransaction_def verifyTransaction_try_def transaction_call_eq
      operations_call_eq Let_def split: sum.splits option.splits)

lemma waitForTransaction_lookups:
  fixes hz h network ts s
  defines "sv \<equiv> getHorizonClient network"
    and "tmo \<equiv> number_mul (or_default ts (number_of_int 30)) (number_of_int 1000)"
  assumes some: "waitForTransaction hz h network ts s = Some (r, s')"
  shows "\<exists>n. sent s' = sent s @ lookups hz sv h (clock s) n
    \<and> (\<forall>k<n. int_less_number (1000 * int k) tmo)"
proof -
  let ?stop = "\<lambda>k. \<not> (in_time hz sv h (clock s) tmo k
      \<and> not_found (snd (answer hz sv h (clock s) k)))"
  from some have "\<exists>k. ?stop k"
    unfolding waitForTransaction_loop_eq sv_def tmo_def in_time_def
    by (rule loop_some_stops)
  then obtain n where n: "?stop n" and least: "\<forall>k<n. \<not> ?stop k"
    using exists_least_iff [of ?stop] by blast
  from least have polling: "\<forall>k<n. in_time hz sv h (clock s) tmo k
      \<and> not_found (snd (answer hz sv h (clock s) k))"
    by blast
  have early: "int_less_number (1000 * int k) tmo" if "in_time hz sv h (clock s) tmo k" for k
  proof -
    from attempt_time_ge [of "clock s" k hz sv h]
    have "1000 * int k \<le> int (attempt_time hz sv h (clock s) k) - int (clock s)"
      by simp
    with that show ?thesis
      unfolding in_time_def by (rule int_less_number_mono)
  qed
  show ?thesis
  proof (cases "in_time hz sv h (clock s) tmo n")
    case False
    from waitForTransaction_exact(1) [of n hz network h s ts, folded sv_def tmo_def, OF polling False]
      some
    have "sent s' = sent s @ lookups hz sv h (clock s) n"
      by simp
    with polling early show ?thesis
      by blast
  next
    case True
    with n have "\<not> not_found (snd (answer hz sv h (clock s) n))"
      by blast
    from waitForTransaction_exact(2) [of n hz network h s ts, folded sv_def tmo_def,
        OF polling True this] some
    have "sent s' = sent s @ lookups hz sv h (clock s) (Suc n)"
      by simp
    moreover from polling True have "\<forall>k<Suc n. in_time hz sv h (clock s) tmo k"
      by (simp add: less_Suc_eq)
    ultimately show ?thesis
      using early by blast
  qed
qed

lemma timeout_30:
  "number_mul (number_of_int 30) (number_of_int 1000) = Fin 8246337208320000 (- 38)"
  by code_simp

lemma timeout_2_5:
  "number_mul two_and_a_half (number_of_int 1000) = Fin 5497558138880000 (- 41)"
  by code_simp

lemma toString_timeouts:
  "toString (number_of_int 30) = ''30''" "toString two_and_a_half = ''2.5''"
  by code_simp+

lemma waitForTransaction_default_count:
  assumes "waitForTransaction hz h network None s = Some (r, s')"
  shows "length (sent s') \<le> length (sent s) + 30"
proof -
  from waitForTransaction_lookups [OF assms]
  obtain n where n: "sent s' = sent s @ lookups hz (getHorizonClient network) h (clock s) n"
    "\<forall>k<n. int_less_number (1000 * int k) (Fin 8246337208320000 (- 38))"
    by (auto simp: timeout_30)
  have "n \<le> 30"
  proof (rule ccontr)
    assume "\<not> n \<le> 30"
    then have "30 < n"
      by simp
    with n(2) have "int_less_number (1000 * int 30) (Fin 8246337208320000 (- 38))"
      by blast
    then show False
      by simp
  qed
  with n(1) show ?thesis
    by (simp add: lookups_def)
qed

text \<open>Which calls \<open>verifyTransaction\<close> and \<open>signAndSubmitPayment\<close> make, and in which order.\<close>

lemma verifyTransaction_calls:
  "\<exists>t. sent (snd (verifyTransaction hz h nw es er ea s)) =
         sent s @ [(clock s, Horizon (getHorizonClient nw) (TransactionCall h))]
     \<or> sent (snd (verifyTransaction hz h nw es er ea s)) =
         sent s @ [(clock s, Horizon (getHorizonClient nw) (TransactionCall h)),
                   (t, Horizon (getHorizonClient nw) (OperationsForTransaction h))]"
  by (simp add: verifyTransaction_def verifyTransaction_try_def transaction_call_eq
      operations_call_eq Let_def getHorizonClient_default split: sum.splits option.splits)

lemma checkMemoRequired_calls:
  "\<exists>t. sent (snd (checkMemoRequired hz sv [d] s)) = sent s
     \<or> sent (snd (checkMemoRequired hz sv [d] s)) = sent s @ [(t, Horizon sv (LoadAccount d))]"
  by (simp add: loadAccount_eq split: sum.splits)

lemma submitTransaction_calls:
  assumes "tx_operations t = [op]"
  shows "\<exists>cs. sent (snd (submitTransaction hz sv t s)) = sent s @ cs
     \<and> ((\<exists>t1. cs = [(t1, Horizon sv (SubmitTransaction t))])
        \<or> (\<exists>t1. cs = [(t1, Horizon sv (LoadAccount (destination op)))])
        \<or> (\<exists>t1 t2. cs = [(t1, Horizon sv (LoadAccount (destination op))),
                           (t2, Horizon sv (SubmitTransaction t))]))"
  using assms
  by (auto simp: submitTransaction_def post_transaction_eq loadAccount_eq
      split: sum.splits)

lemma buildPaymentTransaction_sent:
  "sent (snd (buildPaymentTransaction hz sdk kp dst am nw memo s)) =
     sent s @ [(clock s, Horizon (getHorizonClient nw) (LoadAccount (publicKey kp)))]"
  by (simp add: buildPaymentTransaction_def loadAccount_eq Let_def getHorizonClient_default
      split: sum.splits)

lemma buildPaymentTransaction_operation:
  "fst (buildPaymentTransaction hz sdk kp dst am nw memo s) = Inr t \<Longrightarrow>
   \<exists>op. tx_operations t = [op]"
  by (auto simp: buildPaymentTransaction_def loadAccount_eq Let_def
      split: sum.splits if_splits)

lemma signAndSubmitPayment_calls:
  fixes hz sdk kp dst am nw memo s
  defines "sv \<equiv> getHorizonClient nw"
  shows "\<exists>cs. sent (snd (signAndSubmitPayment hz sdk kp dst am nw memo s)) =
          sent s @ (clock s, Horizon sv (LoadAccount (publicKey kp))) # cs
     \<and> (cs = []
        \<or> (\<exists>t1 tx. cs = [(t1, Horizon sv (SubmitTransaction tx))])
        \<or> (\<exists>t1 d. cs = [(t1, Horizon sv (LoadAccount d))])
        \<or> (\<exists>t1 d t2 tx. cs = [(t1, Horizon sv (LoadAccount d)),
                               (t2, Horizon sv (SubmitTransaction tx))]))"
proof (cases "buildPaymentTransaction hz sdk kp dst am (Some (or_default nw ''stellar-testnet'')) memo s")
  case (Pair r s')
  from buildPaymentTransaction_sent [of hz sdk kp dst am "Some (or_default nw ''stellar-testnet'')" memo s]
    Pair
  have s': "sent s' = sent s @ [(clock s, Horizon sv (LoadAccount (publicKey kp)))]"
    by (simp add: sv_def getHorizonClient_default)
  show ?thesis
  proof (cases r)
    case (Inl e)
    with Pair s' show ?thesis
      by (simp add: signAndSubmitPayment_def Let_def)
  next
    case (Inr t)
    with buildPaymentTransaction_operation [of hz sdk kp dst am "Some (or_default nw ''stellar-testnet'')" memo s t]
      Pair
    obtain op where "tx_operations (sign t kp) = [op]"
      by (auto simp: sign_def)
    from submitTransaction_calls [OF this, of hz sv s']
    obtain cs where cs: "sent (snd (submitTransaction hz sv (sign t kp) s')) = sent s' @ cs"
      "(\<exists>t1 tx. cs = [(t1, Horizon sv (SubmitTransaction tx))])
        \<or> (\<exists>t1 d. cs = [(t1, Horizon sv (LoadAccount d))])
        \<or> (\<exists>t1 d t2 tx. cs = [(t1, Horizon sv (LoadAccount d)),
                               (t2, Horizon sv (SubmitTransaction tx))])"
      by blast
    have "sent (snd (signAndSubmitPayment hz sdk kp dst am nw memo s)) =
        sent (snd (submitTransaction hz sv (sign t kp) s'))"
      using Pair Inr
      by (auto simp: signAndSubmitPayment_def Let_def sv_def getHorizonClient_default
          split: prod.splits sum.splits)
    with cs s' show ?thesis
      by simp
  qed
qed

text \<open>Polling runs on the two Horizons of the examples.\<close>

lemma confirming_run:
  "attempt_time horizon_confirming sv h 0 0 = 0"
  "attempt_time horizon_confirming sv h 0 1 = 1200"
  "attempt_time horizon_confirming sv h 0 2 = 2400"
  by (simp_all add: horizon_confirming_def numeral_2_eq_2)

lemma pending_run:
  "attempt_time horizon_pending sv h 0 0 = 0"
  "attempt_time horizon_pending sv h 0 1 = 1200"
  "attempt_time horizon_pending sv h 0 2 = 2400"
  "attempt_time horizon_pending sv h 0 3 = 3600"
  by (simp_all add: horizon_pending_def horizon_confirming_def numeral_2_eq_2 numeral_3_eq_3)

lemma three_lookups:
  "lookups hz sv h t0 3 =
     [(attempt_time hz sv h t0 0, Horizon sv (TransactionCall h)),
      (attempt_time hz sv h t0 1, Horizon sv (TransactionCall h)),
      (attempt_time hz sv h t0 2, Horizon sv (TransactionCall h))]"
  by (simp add: lookups_def numeral_3_eq_3 numeral_2_eq_2)

lemma pending_time:
  "attempt_time horizon_pending sv h t0 k = t0 + 1200 * k"
  by (induction k) (simp_all add: horizon_pending_def horizon_confirming_def)

lemma pending_answer:
  "not_found (snd (answer horizon_pending sv h t0 k))"
  by (simp add: answer_def horizon_pending_def horizon_confirming_def)

lemma pending_in_time_30:
  "in_time horizon_pending sv h t0 (Fin 8246337208320000 (- 38)) k = (k < 25)"
  by (simp add: in_time_def pending_time)

lemma pending_wait:
  "waitForTransaction horizon_pending ''abc'' None None state0 =
     Some (Inl (Raised (ErrorInstance ''Transaction not found after 30 seconds'')),
           \<lparr>clock = 30000,
            sent = map (\<lambda>k. (1200 * k, Horizon testnet_server (TransactionCall ''abc'')))
                     [0 ..< 25]\<rparr>)"
  using waitForTransaction_exact(1) [of 25 horizon_pending None "''abc''" state0 None]
  by (simp add: pending_in_time_30 pending_answer pending_time timeout_30 toString_timeouts
      getHorizonClient_testnet state0_def lookups_def del: upt_Suc)

lemma pending_wait_short:
  "waitForTransaction horizon_pending ''abc'' None (Some two_and_a_half) state0 =
     Some (Inl (Raised (ErrorInstance ''Transaction not found after 2.5 seconds'')),
           \<lparr>clock = 3600,
            sent = [(0, Horizon testnet_server (TransactionCall ''abc'')),
                    (1200, Horizon testnet_server (TransactionCall ''abc'')),
                    (2400, Horizon testnet_server (TransactionCall ''abc''))]\<rparr>)"
proof -
  have "in_time horizon_pending sv h t0 (Fin 5497558138880000 (- 41)) k = (k < 3)" for sv h t0 k
    by (simp add: in_time_def pending_time) arith
  with waitForTransaction_exact(1) [of 3 horizon_pending None "''abc''" state0
      "Some two_and_a_half"]
  show ?thesis
    by (simp add: pending_answer pending_time timeout_2_5 toString_timeouts
        getHorizonClient_testnet state0_def three_lookups del: attempt_time.simps)
qed

lemma confirming_wait:
  "waitForTransaction horizon_confirming ''abc'' None None state0 =
     Some (Inr True,
           \<lparr>clock = 2600,
            sent = [(0, Horizon testnet_server (TransactionCall ''abc'')),
                    (1200, Horizon testnet_server (TransactionCall ''abc'')),
                    (2400, Horizon testnet_server (TransactionCall ''abc''))]\<rparr>)"
proof -
  have two: "(\<forall>k<2. P k) = (P 0 \<and> P (1::nat))" for P
    by (auto simp: less_Suc_eq numeral_2_eq_2)
  have "\<forall>k<2. in_time horizon_confirming testnet_server ''abc'' 0 (Fin 8246337208320000 (- 38)) k
      \<and> not_found (snd (answer horizon_confirming testnet_server ''abc'' 0 k))"
    unfolding two
    by (simp add: in_time_def answer_def confirming_run del: One_nat_def)
      (simp add: horizon_confirming_def)
  moreover have "in_time horizon_confirming testnet_server ''abc'' 0 (Fin 8246337208320000 (- 38)) 2"
    "\<not> not_found (snd (answer horizon_confirming testnet_server ''abc'' 0 2))"
    by (simp_all add: in_time_def answer_def confirming_run) (simp_all add: horizon_confirming_def)
  moreover have "lookup_result (snd (answer horizon_confirming testnet_server ''abc'' 0 2)) = Inr True"
    "attempt_time horizon_confirming testnet_server ''abc'' 0 2
       + fst (answer horizon_confirming testnet_server ''abc'' 0 2) = 2600"
    "lookups horizon_confirming testnet_server ''abc'' 0 (Suc 2) =
       [(0, Horizon testnet_server (TransactionCall ''abc'')),
        (1200, Horizon testnet_server (TransactionCall ''abc'')),
        (2400, Horizon testnet_server (TransactionCall ''abc''))]"
    using three_lookups [of horizon_confirming testnet_server "''abc''" 0]
    by (simp_all add: answer_def confirming_run) (simp_all add: horizon_confirming_def)
  ultimately show ?thesis
    using waitForTransaction_exact(2) [of 2 horizon_confirming None "''abc''" state0 None]
    by (simp add: timeout_30 getHorizonClient_testnet state0_def)
qed

lemma payment_run:
  "signAndSubmitPayment horizon_confirming sdk_accepting
       \<lparr>publicKey = ''GSENDER'', secret = ''S''\<rparr> ''GDEST'' ''0.1'' None None state0 =
     (Inr ''abc123'',
      \<lparr>clock = 600,
       sent = [(0, Horizon testnet_server (LoadAccount ''GSENDER'')),
               (150, Horizon testnet_server (LoadAccount ''GDEST'')),
               (300, Horizon testnet_server (SubmitTransaction
                  \<lparr>tx_source = ''GSENDER'', tx_sequence = 2, tx_fee = ''100'',
                   tx_networkPassphrase = ''Test SDF Network ; September 2015'',
                   tx_operations = [\<lparr>destination = ''GDEST'', asset = Native, amount = ''0.1''\<rparr>],
                   tx_memo = None, tx_timeout = 180, tx_signatures = [''GSENDER'']\<rparr>))]\<rparr>)"
  by (simp add: signAndSubmitPayment_def buildPaymentTransaction_def submitTransaction_def
      post_transaction_def loadAccount_def sign_def getHorizonClient_testnet
      getNetworkPassphrase_def Networks_TESTNET_def BASE_FEE_def toLowerCase_def lower_char_def
      horizon_confirming_def sdk_accepting_def state0_def Let_def)

text \<open>
  C4, as the spec states it, fails twice.  \<open>signAndSubmitPayment\<close> makes three requests
  when all goes well: it loads the source account to build the transaction, and
  \<open>submitTransaction\<close> of the SDK loads the destination account (a transaction without
  a memo is checked for a destination that requires one) before it posts the
  transaction.  And on a Horizon that answers each lookup with not-found after 200 ms,
  one call of \<open>waitForTransaction\<close> makes 25 lookups with the default timeout before it
  throws, and 3 lookups with a timeout of 2.5 seconds.
\<close>

theorem network_calls_counterexample:
  "signAndSubmitPayment horizon_confirming sdk_accepting
       \<lparr>publicKey = ''GSENDER'', secret = ''S''\<rparr> ''GDEST'' ''0.1'' None None state0 =
     (Inr ''abc123'',
      \<lparr>clock = 600,
       sent = [(0, Horizon testnet_server (LoadAccount ''GSENDER'')),
               (150, Horizon testnet_server (LoadAccount ''GDEST'')),
               (300, Horizon testnet_server (SubmitTransaction
                  \<lparr>tx_source = ''GSENDER'', tx_sequence = 2, tx_fee = ''100'',
                   tx_networkPassphrase = ''Test SDF Network ; September 2015'',
                   tx_operations = [\<lparr>destination = ''GDEST'', asset = Native, amount = ''0.1''\<rparr>],
                   tx_memo = None, tx_timeout = 180, tx_signatures = [''GSENDER'']\<rparr>))]\<rparr>)
   \<and> waitForTransaction horizon_pending ''abc'' None None state0 =
       Some (Inl (Raised (ErrorInstance ''Transaction not found after 30 seconds'')),
             \<lparr>clock = 30000,
              sent = map (\<lambda>k. (1200 * k, Horizon testnet_server (TransactionCall ''abc'')))
                       [0 ..< 25]\<rparr>)
   \<and> length (map (\<lambda>k. (1200 * k, Horizon testnet_server (TransactionCall ''abc''))) [0 ..< 25])
       = 25
   \<and> waitForTransaction horizon_pending ''abc'' None (Some two_and_a_half) state0 =
       Some (Inl (Raised (ErrorInstance ''Transaction not found after 2.5 seconds'')),
             \<lparr>clock = 3600,
              sent = [(0, Horizon testnet_server (TransactionCall ''abc'')),
                      (1200, Horizon testnet_server (TransactionCall ''abc'')),
                      (2400, Horizon testnet_server (TransactionCall ''abc''))]\<rparr>)"
  using payment_run pending_wait pending_wait_short
  by simp

text \<open>
  C4, amended: each exported function other than \<open>waitForTransaction\<close> makes at most
  three network calls in one invocation: \<open>verifyPayment\<close>, \<open>settlePayment\<close>,
  \<open>buildPaymentTransaction\<close> and \<open>getAccountBalance\<close> exactly one, the two \<open>Simple\<close>
  wrappers at most one, \<open>verifyTransaction\<close> at most two and \<open>signAndSubmitPayment\<close> at
  most three (the functions without a state argument make none).  A call of
  \<open>waitForTransaction\<close> that returns or throws has made one lookup per round of its loop,
  and a \<open>k\<close>-th further lookup only if \<open>k\<close> times 1000 is less than the timeout in
  milliseconds (the product \<open>timeoutSeconds * 1000\<close>, as a double); with the default
  timeout these are at most 30 lookups.
\<close>

theorem network_calls:
  "length (sent (snd (verifyPayment fac url tx rc am nw s))) = length (sent s) + 1
   \<and> length (sent (snd (settlePayment fac url tx nw s))) = length (sent s) + 1
   \<and> length (sent (snd (verifyPaymentSimple fac url tx rc am nw s))) \<le> length (sent s) + 1
   \<and> length (sent (snd (settlePaymentSimple fac url tx nw s))) \<le> length (sent s) + 1
   \<and> length (sent (snd (buildPaymentTransaction hz sdk kp dst amt nw memo s))) = length (sent s) + 1
   \<and> length (sent (snd (signAndSubmitPayment hz sdk kp dst amt nw memo s))) \<le> length (sent s) + 3
   \<and> length (sent (snd (getAccountBalance hz addr nw s))) = length (sent s) + 1
   \<and> length (sent (snd (verifyTransaction hz h nw es er ea s))) \<le> length (sent s) + 2
   \<and> (waitForTransaction hz h nw ts s = Some (r, s') \<longrightarrow>
        (\<exists>n. length (sent s') = length (sent s) + n
           \<and> (\<forall>k<n. int_less_number (1000 * int k)
                       (number_mul (or_default ts (number_of_int 30)) (number_of_int 1000)))))
   \<and> (waitForTransaction hz h nw None s = Some (rd, sd) \<longrightarrow>
        length (sent sd) \<le> length (sent s) + 30)"
proof -
  have "\<exists>n. length (sent s') = length (sent s) + n
           \<and> (\<forall>k<n. int_less_number (1000 * int k)
                       (number_mul (or_default ts (number_of_int 30)) (number_of_int 1000)))"
    if "waitForTransaction hz h nw ts s = Some (r, s')"
  proof -
    from waitForTransaction_lookups [OF that]
    obtain n where "sent s' = sent s @ lookups hz (getHorizonClient nw) h (clock s) n"
      and n: "\<forall>k<n. int_less_number (1000 * int k)
                (number_mul (or_default ts (number_of_int 30)) (number_of_int 1000))"
      by blast
    then have "length (sent s') = length (sent s) + n"
      by (simp add: lookups_def)
    with n show ?thesis
      by blast
  qed
  moreover have "length (sent sd) \<le> length (sent s) + 30"
    if "waitForTransaction hz h nw None s = Some (rd, sd)"
    using that by (rule waitForTransaction_default_count)
  ultimately show ?thesis
    using verifyPayment_count [of fac url tx rc am nw s]
      verifyPayment_count [of fac "url @ ''/verify''" tx rc am
        "Some (or_default nw ''stellar-testnet'')" s]
      settlePayment_count [of fac url tx nw s]
      settlePayment_count [of fac "url @ ''/settle''" tx "Some (or_default nw ''stellar-testnet'')" s]
      buildPaymentTransaction_count [of hz sdk kp dst amt nw memo s]
      signAndSubmitPayment_count [of hz sdk kp dst amt nw memo s]
      getAccountBalance_count [of hz addr nw s]
      verifyTransaction_count [of hz h nw es er ea s]
    by (simp add: verifyPaymentSimple_def settlePaymentSimple_def)
qed

text \<open>
  On the Horizon that never finds the transaction: with a timeout of 2.5 seconds three
  lookups are made, at 0, 1000 and 2000 ms of waiting at least; with the default timeout
  25, which is at most 30.
\<close>

theorem network_calls_witness:
  "waitForTransaction horizon_pending ''abc'' None (Some two_and_a_half) state0 =
     Some (Inl (Raised (ErrorInstance ''Transaction not found after 2.5 seconds'')),
           \<lparr>clock = 3600,
            sent = [(0, Horizon testnet_server (TransactionCall ''abc'')),
                    (1200, Horizon testnet_server (TransactionCall ''abc'')),
                    (2400, Horizon testnet_server (TransactionCall ''abc''))]\<rparr>)
   \<and> int_less_number 0 (number_mul two_and_a_half (number_of_int 1000))
   \<and> int_less_number 1000 (number_mul two_and_a_half (number_of_int 1000))
   \<and> int_less_number 2000 (number_mul two_and_a_half (number_of_int 1000))
   \<and> waitForTransaction horizon_pending ''abc'' None None state0 =
       Some (Inl (Raised (ErrorInstance ''Transaction not found after 30 seconds'')),
             \<lparr>clock = 30000,
              sent = map (\<lambda>k. (1200 * k, Horizon testnet_server (TransactionCall ''abc'')))
                       [0 ..< 25]\<rparr>)
   \<and> length (map (\<lambda>k. (1200 * k, Horizon testnet_server (TransactionCall ''abc''))) [0 ..< 25])
       \<le> length (sent state0) + 30"
proof -
  let ?short = "\<lparr>clock = 3600,
      sent = [(0, Horizon testnet_server (TransactionCall ''abc'')),
              (1200, Horizon testnet_server (TransactionCall ''abc'')),
              (2400, Horizon testnet_server (TransactionCall ''abc''))]\<rparr>"
  let ?long = "\<lparr>clock = 30000,
      sent = map (\<lambda>k. (1200 * k, Horizon testnet_server (TransactionCall ''abc'')))
               [0 ..< 25]\<rparr>"
  let ?tmo = "number_mul two_and_a_half (number_of_int 1000)"
  note calls = network_calls [where hz = horizon_pending and h = "''abc''" and nw = None
      and ts = "Some two_and_a_half" and s = state0
      and r = "Inl (Raised (ErrorInstance ''Transaction not found after 2.5 seconds''))"
      and s' = ?short
      and rd = "Inl (Raised (ErrorInstance ''Transaction not found after 30 seconds''))"
      and sd = ?long]
  from calls pending_wait_short
  have "\<exists>n. length (sent ?short) = length (sent state0) + n
      \<and> (\<forall>k<n. int_less_number (1000 * int k) ?tmo)"
    by (simp only: or_default.simps)
  then have polls: "\<forall>k<3. int_less_number (1000 * int k) ?tmo"
    by (simp add: state0_def)
  from polls [rule_format, of 0] polls [rule_format, of 1] polls [rule_format, of 2]
  have short: "int_less_number 0 ?tmo" "int_less_number 1000 ?tmo" "int_less_number 2000 ?tmo"
    by simp_all
  from calls pending_wait have "length (sent ?long) \<le> length (sent state0) + 30"
    by blast
  then have long: "length (map (\<lambda>k. (1200 * k, Horizon testnet_server (TransactionCall ''abc'')))
      [0 ..< 25]) \<le> length (sent state0) + 30"
    by (simp only: client_state.simps)
  from pending_wait_short short pending_wait long show ?thesis
    by (intro conjI)
qed

section \<open>The polling loop of \<open>waitForTransaction\<close>\<close>

text \<open>
  C5: \<open>waitForTransaction\<close>, called with a transaction hash, a network and a timeout in
  seconds (any number, 30 when omitted), is a polling loop with a fixed interval: it
  looks the transaction up at once, and again exactly 1000 ms after each answer that is
  a not-found (status 404), as long as, when a lookup is due, less than the timeout has
  elapsed since the start.  So, when the first \<open>n\<close> lookups are due in time and are
  answered with not-found:
  \<^item> if the timeout has been reached when the next lookup is due, the call throws
    \<open>Transaction not found after <timeoutSeconds> seconds\<close> at that time, having made
    these \<open>n\<close> lookups and no other call;
  \<^item> if the next lookup is due in time and its answer is not a not-found, the call ends
    with that answer, at the time of the answer: it returns the success flag of the
    transaction found, or throws the error of the lookup, having made these \<open>n + 1\<close>
    lookups and no other call.

  A call whose lookups are all due in time and all answered with not-found never
  returns; this needs an infinite timeout, with every other timeout the call returns or
  throws.

  It is the only retry logic: every other function makes each of its calls once, whatever
  the answers are.  \<open>verifyPayment\<close>, \<open>settlePayment\<close>, \<open>buildPaymentTransaction\<close> and
  \<open>getAccountBalance\<close> make one call, the two \<open>Simple\<close> wrappers at most one;
  \<open>verifyTransaction\<close> looks the transaction up and then at most asks for its
  operations; \<open>signAndSubmitPayment\<close> loads the source account, and then the SDK at most
  loads one destination account and posts one transaction.
\<close>

theorem waitForTransaction_polling:
  "(let horizon = getHorizonClient network;
        timeoutSeconds = or_default timeoutSeconds_opt (number_of_int 30);
        timeoutMs = number_mul timeoutSeconds (number_of_int 1000);
        result = waitForTransaction hz transactionHash network timeoutSeconds_opt s
    in ((\<forall>k<n. in_time hz horizon transactionHash (clock s) timeoutMs k
               \<and> not_found (snd (answer hz horizon transactionHash (clock s) k)))
        \<longrightarrow> (\<not> in_time hz horizon transactionHash (clock s) timeoutMs n
             \<longrightarrow> result =
                   Some (Inl (Raised (ErrorInstance (''Transaction not found after ''
                            @ toString timeoutSeconds @ '' seconds''))),
                         \<lparr>clock = attempt_time hz horizon transactionHash (clock s) n,
                          sent = sent s @ lookups hz horizon transactionHash (clock s) n\<rparr>))
          \<and> (in_time hz horizon transactionHash (clock s) timeoutMs n
              \<and> \<not> not_found (snd (answer hz horizon transactionHash (clock s) n))
             \<longrightarrow> result =
                   Some (lookup_result (snd (answer hz horizon transactionHash (clock s) n)),
                         \<lparr>clock = attempt_time hz horizon transactionHash (clock s) n
                                   + fst (answer hz horizon transactionHash (clock s) n),
                          sent = sent s
                                 @ lookups hz horizon transactionHash (clock s) (Suc n)\<rparr>)))
       \<and> ((\<forall>k. in_time hz horizon transactionHash (clock s) timeoutMs k
                \<and> not_found (snd (answer hz horizon transactionHash (clock s) k)))
          \<longrightarrow> result = None)
       \<and> (timeoutMs \<noteq> PosInfinity \<longrightarrow> result \<noteq> None))
   \<and> length (sent (snd (verifyPayment fac url tx rc am nw s))) = length (sent s) + 1
   \<and> length (sent (snd (settlePayment fac url tx nw s))) = length (sent s) + 1
   \<and> length (sent (snd (verifyPaymentSimple fac url tx rc am nw s))) \<le> length (sent s) + 1
   \<and> length (sent (snd (settlePaymentSimple fac url tx nw s))) \<le> length (sent s) + 1
   \<and> length (sent (snd (buildPaymentTransaction hz sdk kp dst amt nw memo s))) = length (sent s) + 1
   \<and> length (sent (snd (getAccountBalance hz addr nw s))) = length (sent s) + 1
   \<and> (\<exists>t. sent (snd (verifyTransaction hz transactionHash nw es er ea s)) =
             sent s @ [(clock s, Horizon (getHorizonClient nw) (TransactionCall transactionHash))]
          \<or> sent (snd (verifyTransaction hz transactionHash nw es er ea s)) =
             sent s @ [(clock s, Horizon (getHorizonClient nw) (TransactionCall transactionHash)),
                       (t, Horizon (getHorizonClient nw)
                             (OperationsForTransaction transactionHash))])
   \<and> (\<exists>cs. sent (snd (signAndSubmitPayment hz sdk kp dst amt nw memo s)) =
              sent s @ (clock s, Horizon (getHorizonClient nw) (LoadAccount (publicKey kp))) # cs
          \<and> (cs = []
             \<or> (\<exists>t1 tx. cs = [(t1, Horizon (getHorizonClient nw) (SubmitTransaction tx))])
             \<or> (\<exists>t1 d. cs = [(t1, Horizon (getHorizonClient nw) (LoadAccount d))])
             \<or> (\<exists>t1 d t2 tx. cs = [(t1, Horizon (getHorizonClient nw) (LoadAccount d)),
                                    (t2, Horizon (getHorizonClient nw) (SubmitTransaction tx))])))"
proof -
  let ?sv = "getHorizonClient network"
  let ?ts = "or_default timeoutSeconds_opt (number_of_int 30)"
  let ?tmo = "number_mul ?ts (number_of_int 1000)"
  have never: "waitForTransaction hz transactionHash network timeoutSeconds_opt s = None"
    if "\<forall>k. in_time hz ?sv transactionHash (clock s) ?tmo k
                \<and> not_found (snd (answer hz ?sv transactionHash (clock s) k))"
    unfolding waitForTransaction_loop_eq
    using that by (intro loop_never) (simp add: in_time_def)
  have ends: "waitForTransaction hz transactionHash network timeoutSeconds_opt s \<noteq> None"
    if "?tmo \<noteq> PosInfinity"
    unfolding waitForTransaction_loop_eq
    using loop_returns [OF that, of hz ?sv transactionHash ?ts "clock s" s] by auto
  have counts:
    "length (sent (snd (verifyPayment fac url tx rc am nw s))) = length (sent s) + 1"
    "length (sent (snd (settlePayment fac url tx nw s))) = length (sent s) + 1"
    "length (sent (snd (verifyPaymentSimple fac url tx rc am nw s))) \<le> length (sent s) + 1"
    "length (sent (snd (settlePaymentSimple fac url tx nw s))) \<le> length (sent s) + 1"
    "length (sent (snd (buildPaymentTransaction hz sdk kp dst amt nw memo s))) = length (sent s) + 1"
    "length (sent (snd (getAccountBalance hz addr nw s))) = length (sent s) + 1"
    using verifyPayment_count [of fac url tx rc am nw s]
      verifyPayment_count [of fac "url @ ''/verify''" tx rc am
        "Some (or_default nw ''stellar-testnet'')" s]
      settlePayment_count [of fac url tx nw s]
      settlePayment_count [of fac "url @ ''/settle''" tx "Some (or_default nw ''stellar-testnet'')" s]
      buildPaymentTransaction_count [of hz sdk kp dst amt nw memo s]
      getAccountBalance_count [of hz addr nw s]
    by (simp_all add: verifyPaymentSimple_def settlePaymentSimple_def)
  note calls = verifyTransaction_calls [of hz transactionHash nw es er ea s]
    signAndSubmitPayment_calls [of hz sdk kp dst amt nw memo s]
  from waitForTransaction_exact [of n hz network transactionHash s timeoutSeconds_opt]
    never ends
  have "let horizon = getHorizonClient network;
            timeoutSeconds = or_default timeoutSeconds_opt (number_of_int 30);
            timeoutMs = number_mul timeoutSeconds (number_of_int 1000);
            result = waitForTransaction hz transactionHash network timeoutSeconds_opt s
        in ((\<forall>k<n. in_time hz horizon transactionHash (clock s) timeoutMs k
                   \<and> not_found (snd (answer hz horizon transactionHash (clock s) k)))
            \<longrightarrow> (\<not> in_time hz horizon transactionHash (clock s) timeoutMs n
                 \<longrightarrow> result =
                       Some (Inl (Raised (ErrorInstance (''Transaction not found after ''
                                @ toString timeoutSeconds @ '' seconds''))),
                             \<lparr>clock = attempt_time hz horizon transactionHash (clock s) n,
                              sent = sent s @ lookups hz horizon transactionHash (clock s) n\<rparr>))
              \<and> (in_time hz horizon transactionHash (clock s) timeoutMs n
                  \<and> \<not> not_found (snd (answer hz horizon transactionHash (clock s) n))
                 \<longrightarrow> result =
                       Some (lookup_result (snd (answer hz horizon transactionHash (clock s) n)),
                             \<lparr>clock = attempt_time hz horizon transactionHash (clock s) n
                                       + fst (answer hz horizon transactionHash (clock s) n),
                              sent = sent s
                                     @ lookups hz horizon transactionHash (clock s) (Suc n)\<rparr>)))
           \<and> ((\<forall>k. in_time hz horizon transactionHash (clock s) timeoutMs k
                    \<and> not_found (snd (answer hz horizon transactionHash (clock s) k)))
              \<longrightarrow> result = None)
           \<and> (timeoutMs \<noteq> PosInfinity \<longrightarrow> result \<noteq> None)"
    unfolding Let_def by blast
  with counts calls show ?thesis
    by (intro conjI)
qed

text \<open>
  Two runs from time 0 with 200 ms for each answer.  With the default timeout, on a
  Horizon that finds the transaction from 2000 ms on: lookups at 0, 1200 and 2400 ms,
  the third answered at 2600 ms with a successful transaction.  With a timeout of 2.5
  seconds, on a Horizon that never finds it: the same three lookups, and the timeout
  error at 3600 ms.
\<close>

theorem waitForTransaction_polling_witness:
  "in_time horizon_confirming testnet_server ''abc'' 0 (Fin 8246337208320000 (- 38)) 0
   \<and> not_found (snd (answer horizon_confirming testnet_server ''abc'' 0 0))
   \<and> in_time horizon_confirming testnet_server ''abc'' 0 (Fin 8246337208320000 (- 38)) 1
   \<and> not_found (snd (answer horizon_confirming testnet_server ''abc'' 0 1))
   \<and> in_time horizon_confirming testnet_server ''abc'' 0 (Fin 8246337208320000 (- 38)) 2
   \<and> \<not> not_found (snd (answer horizon_confirming testnet_server ''abc'' 0 2))
   \<and> waitForTransaction horizon_confirming ''abc'' None None state0 =
       Some (Inr True,
             \<lparr>clock = 2600,
              sent = [(0, Horizon testnet_server (TransactionCall ''abc'')),
                      (1200, Horizon testnet_server (TransactionCall ''abc'')),
                      (2400, Horizon testnet_server (TransactionCall ''abc''))]\<rparr>)
   \<and> in_time horizon_pending testnet_server ''abc'' 0 (Fin 5497558138880000 (- 41)) 0
   \<and> not_found (snd (answer horizon_pending testnet_server ''abc'' 0 0))
   \<and> in_time horizon_pending testnet_server ''abc'' 0 (Fin 5497558138880000 (- 41)) 1
   \<and> not_found (snd (answer horizon_pending testnet_server ''abc'' 0 1))
   \<and> in_time horizon_pending testnet_server ''abc'' 0 (Fin 5497558138880000 (- 41)) 2
   \<and> not_found (snd (answer horizon_pending testnet_server ''abc'' 0 2))
   \<and> \<not> in_time horizon_pending testnet_server ''abc'' 0 (Fin 5497558138880000 (- 41)) 3
   \<and> waitForTransaction horizon_pending ''abc'' None (Some two_and_a_half) state0 =
       Some (Inl (Raised (ErrorInstance ''Transaction not found after 2.5 seconds'')),
             \<lparr>clock = 3600,
              sent = [(0, Horizon testnet_server (TransactionCall ''abc'')),
                      (1200, Horizon testnet_server (TransactionCall ''abc'')),
                      (2400, Horizon testnet_server (TransactionCall ''abc''))]\<rparr>)"
proof -
  have c: "in_time horizon_confirming testnet_server ''abc'' 0 (Fin 8246337208320000 (- 38)) 0"
    "not_found (snd (answer horizon_confirming testnet_server ''abc'' 0 0))"
    "in_time horizon_confirming testnet_server ''abc'' 0 (Fin 8246337208320000 (- 38)) 1"
    "not_found (snd (answer horizon_confirming testnet_server ''abc'' 0 1))"
    "in_time horizon_confirming testnet_server ''abc'' 0 (Fin 8246337208320000 (- 38)) 2"
    "\<not> not_found (snd (answer horizon_confirming testnet_server ''abc'' 0 2))"
    by (simp_all add: in_time_def answer_def confirming_run) (simp_all add: horizon_confirming_def)
  have p: "in_time horizon_pending testnet_server ''abc'' 0 (Fin 5497558138880000 (- 41)) 0"
    "not_found (snd (answer horizon_pending testnet_server ''abc'' 0 0))"
    "in_time horizon_pending testnet_server ''abc'' 0 (Fin 5497558138880000 (- 41)) 1"
    "not_found (snd (answer horizon_pending testnet_server ''abc'' 0 1))"
    "in_time horizon_pending testnet_server ''abc'' 0 (Fin 5497558138880000 (- 41)) 2"
    "not_found (snd (answer horizon_pending testnet_server ''abc'' 0 2))"
    "\<not> in_time horizon_pending testnet_server ''abc'' 0 (Fin 5497558138880000 (- 41)) 3"
    by (simp_all add: in_time_def answer_def pending_run)
      (simp_all add: horizon_pending_def horizon_confirming_def)
  have s0: "clock state0 = 0" "sent state0 = []"
    by (simp_all add: state0_def)
  have two: "(\<forall>k<2. P k) = (P 0 \<and> P (1::nat))" for P
    by (auto simp: less_Suc_eq eval_nat_numeral)
  have three: "(\<forall>k<3. P k) = (P 0 \<and> P 1 \<and> P (2::nat))" for P
    by (auto simp: less_Suc_eq eval_nat_numeral)
  have ce: "lookup_result (snd (answer horizon_confirming testnet_server ''abc'' 0 2)) = Inr True"
    "attempt_time horizon_confirming testnet_server ''abc'' 0 2
       + fst (answer horizon_confirming testnet_server ''abc'' 0 2) = 2600"
    "lookups horizon_confirming testnet_server ''abc'' 0 (Suc 2) =
       [(0, Horizon testnet_server (TransactionCall ''abc'')),
        (1200, Horizon testnet_server (TransactionCall ''abc'')),
        (2400, Horizon testnet_server (TransactionCall ''abc''))]"
    using three_lookups [of horizon_confirming testnet_server "''abc''" 0]
    by (simp_all add: answer_def confirming_run) (simp_all add: horizon_confirming_def)
  have pe: "lookups horizon_pending testnet_server ''abc'' 0 3 =
       [(0, Horizon testnet_server (TransactionCall ''abc'')),
        (1200, Horizon testnet_server (TransactionCall ''abc'')),
        (2400, Horizon testnet_server (TransactionCall ''abc''))]"
    by (simp only: three_lookups pending_run)
  note wc = waitForTransaction_polling [of None None horizon_confirming "''abc''" state0 2,
      unfolded Let_def getHorizonClient_testnet or_default.simps timeout_30 s0 two]
  from c wc have "waitForTransaction horizon_confirming ''abc'' None None state0 =
      Some (lookup_result (snd (answer horizon_confirming testnet_server ''abc'' 0 2)),
            \<lparr>clock = attempt_time horizon_confirming testnet_server ''abc'' 0 2
                      + fst (answer horizon_confirming testnet_server ''abc'' 0 2),
             sent = [] @ lookups horizon_confirming testnet_server ''abc'' 0 (Suc 2)\<rparr>)"
    by blast
  then have r1: "waitForTransaction horizon_confirming ''abc'' None None state0 =
       Some (Inr True,
             \<lparr>clock = 2600,
              sent = [(0, Horizon testnet_server (TransactionCall ''abc'')),
                      (1200, Horizon testnet_server (TransactionCall ''abc'')),
                      (2400, Horizon testnet_server (TransactionCall ''abc''))]\<rparr>)"
    by (simp only: ce append_Nil)
  note wp = waitForTransaction_polling [of None "Some two_and_a_half" horizon_pending "''abc''"
      state0 3,
      unfolded Let_def getHorizonClient_testnet or_default.simps timeout_2_5 toString_timeouts
        s0 three]
  from p wp have "waitForTransaction horizon_pending ''abc'' None (Some two_and_a_half) state0 =
      Some (Inl (Raised (ErrorInstance (''Transaction not found after '' @ ''2.5''
               @ '' seconds''))),
            \<lparr>clock = attempt_time horizon_pending testnet_server ''abc'' 0 3,
             sent = [] @ lookups horizon_pending testnet_server ''abc'' 0 3\<rparr>)"
    by blast
  then have r2: "waitForTransaction horizon_pending ''abc'' None (Some two_and_a_half) state0 =
       Some (Inl (Raised (ErrorInstance ''Transaction not found after 2.5 seconds'')),
             \<lparr>clock = 3600,
              sent = [(0, Horizon testnet_server (TransactionCall ''abc'')),
                      (1200, Horizon testnet_server (TransactionCall ''abc'')),
                      (2400, Horizon testnet_server (TransactionCall ''abc''))]\<rparr>)"
    by (simp only: pe pending_run append_Nil append.simps)
  from c p r1 r2 show ?thesis
    by (intro conjI)
qed

section \<open>Amounts\<close>

text \<open>
  C10 does not hold of the code: 21 stroops are \<open>0.0000021\<close> XLM, and \<open>xlmToStroops\<close>
  makes 20 stroops of that, since the double nearest to 0.0000021 times 10000000 is
  the double just below 21, which \<open>Math.floor\<close> takes down to 20.
\<close>

theorem stroops_round_trip_fails:
  "stroopsToXlm ''21'' = ''0.0000021'' \<and> xlmToStroops ''0.0000021'' = ''20''
   \<and> xlmToStroops (stroopsToXlm ''21'') = ''20''"
  by code_simp

end
